theory Spec2Isabelle
  imports Main "HOL-Library.Word"
begin

unbundle bit_operations_syntax

section \<open>Go values\<close>

text \<open>
  A Go \<open>string\<close> is a sequence of bytes: \<^typ>\<open>string\<close>. A run-time panic is a value of
  its own, so that every nil dereference, index and slice expression of the source is a
  branch of the model. A Go \<open>error\<close> that may be \<open>nil\<close> is an \<^typ>\<open>'a option\<close>.
\<close>

datatype panic = NilPointerDereference | IndexOutOfRange | SliceBoundsOutOfRange

datatype 'a result = Panic panic | Return 'a

datatype error = Error string | ProtocolError int string

definition CR :: char where
  "CR = CHR 0x0D"

definition LF :: char where
  "LF = CHR 0x0A"

definition TAB :: char where
  "TAB = CHR 0x09"

definition CRLF :: string where
  "CRLF = [CR, LF]"

text \<open>\<open>s[lo:hi]\<close>: Go panics unless \<open>0 \<le> lo \<le> hi \<le> len(s)\<close>.\<close>

definition slice :: "string \<Rightarrow> int \<Rightarrow> int \<Rightarrow> string result" where
  "slice s lo hi =
     (if 0 \<le> lo \<and> lo \<le> hi \<and> hi \<le> int (length s)
      then Return (take (nat hi - nat lo) (drop (nat lo) s))
      else Panic SliceBoundsOutOfRange)"

text \<open>\<open>xs[i]\<close>: Go panics unless \<open>0 \<le> i < len(xs)\<close>.\<close>

definition index :: "'a list \<Rightarrow> int \<Rightarrow> 'a result" where
  "index xs i =
     (if 0 \<le> i \<and> i < int (length xs) then Return (xs ! nat i) else Panic IndexOutOfRange)"

subsection \<open>Package strings\<close>

text \<open>
  The white space and letter case functions of package \<open>strings\<close> are modelled on the
  ASCII range; \<open>ascii\<close> marks the strings on which the model is the library.
\<close>

definition ascii :: "string \<Rightarrow> bool" where
  "ascii s = list_all (\<lambda>c. (of_char c :: nat) < 128) s"

definition isSpace :: "char \<Rightarrow> bool" where
  "isSpace c = (c = CHR 0x09 \<or> c = CHR 0x0A \<or> c = CHR 0x0B \<or> c = CHR 0x0C \<or> c = CHR 0x0D
     \<or> c = CHR 0x20)"

text \<open>\<open>strings.Fields\<close>: the maximal runs of non-space bytes; \<open>w\<close> is the run being read.\<close>

fun fields_from :: "string \<Rightarrow> string \<Rightarrow> string list" where
  "fields_from w [] = (if w = [] then [] else [w])"
| "fields_from w (c # cs) =
     (if isSpace c then (if w = [] then fields_from [] cs else w # fields_from [] cs)
      else fields_from (w @ [c]) cs)"

definition strings_Fields :: "string \<Rightarrow> string list" where
  "strings_Fields s = fields_from [] s"

text \<open>\<open>strings.Index\<close> and \<open>strings.LastIndex\<close>: \<open>-1\<close> when \<open>sub\<close> does not occur.\<close>

fun strings_Index :: "string \<Rightarrow> string \<Rightarrow> int" where
  "strings_Index [] sub = (if sub = [] then 0 else - 1)"
| "strings_Index (c # cs) sub =
     (if take (length sub) (c # cs) = sub then 0
      else (let i = strings_Index cs sub in if i < 0 then - 1 else i + 1))"

fun strings_LastIndex :: "string \<Rightarrow> string \<Rightarrow> int" where
  "strings_LastIndex [] sub = (if sub = [] then 0 else - 1)"
| "strings_LastIndex (c # cs) sub =
     (let i = strings_LastIndex cs sub in
      if 0 \<le> i then i + 1
      else if take (length sub) (c # cs) = sub then 0 else - 1)"

definition strings_Contains :: "string \<Rightarrow> string \<Rightarrow> bool" where
  "strings_Contains s sub = (0 \<le> strings_Index s sub)"

definition strings_HasPrefix :: "string \<Rightarrow> string \<Rightarrow> bool" where
  "strings_HasPrefix s p = (take (length p) s = p)"

text \<open>
  \<open>strings.Split(s, sep)\<close> for a separator of one byte, which is what every call of the
  source passes: always at least one element.
\<close>

fun split_from :: "char \<Rightarrow> string \<Rightarrow> string \<Rightarrow> string list" where
  "split_from sep w [] = [w]"
| "split_from sep w (c # cs) =
     (if c = sep then w # split_from sep [] cs else split_from sep (w @ [c]) cs)"

definition strings_Split :: "string \<Rightarrow> char \<Rightarrow> string list" where
  "strings_Split s sep = split_from sep [] s"

text \<open>\<open>strings.SplitN(s, sep, 2)\<close>: split at the first separator only.\<close>

definition strings_SplitN2 :: "string \<Rightarrow> char \<Rightarrow> string list" where
  "strings_SplitN2 s sep =
     (if sep \<in> set s then [takeWhile (\<lambda>c. c \<noteq> sep) s, tl (dropWhile (\<lambda>c. c \<noteq> sep) s)]
      else [s])"

fun strings_Join :: "string list \<Rightarrow> string \<Rightarrow> string" where
  "strings_Join [] sep = []"
| "strings_Join [x] sep = x"
| "strings_Join (x # y # ys) sep = x @ sep @ strings_Join (y # ys) sep"

definition strings_TrimSpace :: "string \<Rightarrow> string" where
  "strings_TrimSpace s = rev (dropWhile isSpace (rev (dropWhile isSpace s)))"

definition toUpper :: "char \<Rightarrow> char" where
  "toUpper c =
     (case map_of (zip ''abcdefghijklmnopqrstuvwxyz'' ''ABCDEFGHIJKLMNOPQRSTUVWXYZ'') c of
        Some u \<Rightarrow> u
      | None \<Rightarrow> c)"

definition strings_ToUpper :: "string \<Rightarrow> string" where
  "strings_ToUpper s = map toUpper s"

text \<open>\<open>strings.ReplaceAll(s, old, new)\<close> for \<open>old\<close> and \<open>new\<close> of one byte each.\<close>

definition strings_ReplaceAll :: "string \<Rightarrow> char \<Rightarrow> char \<Rightarrow> string" where
  "strings_ReplaceAll s old new = map (\<lambda>c. if c = old then new else c) s"

subsection \<open>Package strconv\<close>

definition isDigit :: "char \<Rightarrow> bool" where
  "isDigit c = (48 \<le> (of_char c :: nat) \<and> (of_char c :: nat) \<le> 57)"

definition digit_val :: "char \<Rightarrow> nat" where
  "digit_val c = of_char c - 48"

definition digit_char :: "nat \<Rightarrow> char" where
  "digit_char d = ''0123456789'' ! d"

fun decimal_from :: "nat \<Rightarrow> string \<Rightarrow> nat" where
  "decimal_from acc [] = acc"
| "decimal_from acc (c # cs) = decimal_from (acc * 10 + digit_val c) cs"

definition decimal :: "string \<Rightarrow> nat" where
  "decimal s = decimal_from 0 s"

fun digits :: "nat \<Rightarrow> string" where
  "digits n = (if n < 10 then [digit_char n] else digits (n div 10) @ [digit_char (n mod 10)])"

declare digits.simps [simp del]

text \<open>\<open>strconv.Itoa\<close>, which is also \<open>%d\<close> of \<open>fmt\<close>.\<close>

definition strconv_Itoa :: "int \<Rightarrow> string" where
  "strconv_Itoa i = (if i < 0 then CHR ''-'' # digits (nat (- i)) else digits (nat i))"

text \<open>
  \<open>strconv.Atoi\<close> on a 64-bit \<open>int\<close>: an optional sign and decimal digits. On a syntax
  error the value is 0; out of range it is the nearest bound, and the error is set.
\<close>

definition strconv_Atoi :: "string \<Rightarrow> int \<times> error option" where
  "strconv_Atoi s =
     (let neg = (s \<noteq> [] \<and> hd s = CHR ''-'');
          ds = (if s \<noteq> [] \<and> (hd s = CHR ''-'' \<or> hd s = CHR ''+'') then tl s else s)
      in if ds = [] \<or> \<not> list_all isDigit ds then (0, Some (Error ''invalid syntax''))
         else if neg then
           (if 2 ^ 63 < decimal ds then (- (2 ^ 63), Some (Error ''value out of range''))
            else (- int (decimal ds), None))
         else
           (if 2 ^ 63 \<le> decimal ds then (2 ^ 63 - 1, Some (Error ''value out of range''))
            else (int (decimal ds), None)))"

text \<open>\<open>strconv.ParseUint(s, 10, 0)\<close>: decimal digits only, below \<open>2^64\<close>.\<close>

definition strconv_ParseUint :: "string \<Rightarrow> 64 word \<times> error option" where
  "strconv_ParseUint s =
     (if s = [] \<or> \<not> list_all isDigit s then (0, Some (Error ''invalid syntax''))
      else if 2 ^ 64 \<le> decimal s then (- 1, Some (Error ''value out of range''))
      else (of_nat (decimal s), None))"

section \<open>The listing codec: formatting\<close>

text \<open>
  A \<open>time.Time\<close> is kept as the civil date and time it shows in its own location, which
  is what \<open>Format\<close> prints; an \<open>os.FileInfo\<close> is the record of what its methods return.
  The times \<open>parseListLine\<close> builds are read with the zone \<open>GMT\<close>: they are taken to show
  the date and time that was read, as they do wherever the local zone of the machine has
  no daylight saving under the name \<open>GMT\<close>.
\<close>

record GoTime =
  year :: int
  month :: nat
  day :: nat
  hour :: nat
  minute :: nat
  second :: nat

record FileInfo =
  fi_Name :: string
  fi_Size :: int
  fi_Mode :: "32 word"
  fi_ModTime :: GoTime

text \<open>\<open>FileMode.IsDir\<close>: the bit \<open>ModeDir = 1 << 31\<close>.\<close>

definition IsDir :: "FileInfo \<Rightarrow> bool" where
  "IsDir f = bit (fi_Mode f) 31"

text \<open>
  \<open>FileMode.String\<close>: one letter of \<open>dalTLDpSugct?\<close> for each of the bits 31 down to 19
  that is set, \<open>-\<close> when none is, then the nine permission bits as \<open>rwxrwxrwx\<close>.
\<close>

definition mode_letters :: "32 word \<Rightarrow> string" where
  "mode_letters m =
     map fst (filter (\<lambda>(c, i). bit m (31 - i)) (zip ''dalTLDpSugct?'' [0 ..< 13]))"

definition mode_rwx :: "32 word \<Rightarrow> string" where
  "mode_rwx m =
     map (\<lambda>(c, i). if bit m (8 - i) then c else CHR ''-'') (zip ''rwxrwxrwx'' [0 ..< 9])"

definition FileMode_String :: "32 word \<Rightarrow> string" where
  "FileMode_String m =
     (if mode_letters m = [] then ''-'' else mode_letters m) @ mode_rwx m"

definition shortMonthNames :: "string list" where
  "shortMonthNames =
     [''Jan'', ''Feb'', ''Mar'', ''Apr'', ''May'', ''Jun'',
      ''Jul'', ''Aug'', ''Sep'', ''Oct'', ''Nov'', ''Dec'']"

text \<open>\<open>appendInt(b, x, 2)\<close> of package \<open>time\<close>: at least two digits.\<close>

definition zero2 :: "nat \<Rightarrow> string" where
  "zero2 n = (if n < 10 then CHR ''0'' # digits n else digits n)"

text \<open>\<open>Time.Format("Jan _2 15:04")\<close>.\<close>

definition time_Format :: "GoTime \<Rightarrow> string" where
  "time_Format t =
     (if 1 \<le> month t \<and> month t \<le> 12 then shortMonthNames ! (month t - 1) else ''%!Month'')
     @ '' '' @ (if day t < 10 then '' '' @ digits (day t) else digits (day t))
     @ '' '' @ zero2 (hour t) @ '':'' @ zero2 (minute t)"

text \<open>\<open>%8d\<close>: the decimal number, padded with spaces on the left to width 8.\<close>

definition pad8 :: "int \<Rightarrow> string" where
  "pad8 i = replicate (8 - length (strconv_Itoa i)) CHR '' '' @ strconv_Itoa i"

definition null :: string where
  "null = ''drwxrwxrwx 1 user group 0 Apr  1 00:00 .'' @ CRLF @
          ''drwxrwxrwx 1 user group 0 Apr  1 00:00 ..'' @ CRLF"

text \<open>One iteration of the loop of \<open>ListDetailed\<close>: the \<open>Fprintf\<close> of one item.\<close>

definition detailed_line :: "FileInfo \<Rightarrow> string" where
  "detailed_line item =
     FileMode_String (fi_Mode item) @ [TAB] @ ''1 user'' @ [TAB] @ ''group'' @ [TAB]
     @ pad8 (fi_Size item) @ '' '' @ time_Format (fi_ModTime item) @ '' '' @ fi_Name item
     @ CRLF"

definition ListDetailed :: "FileInfo list \<Rightarrow> string" where
  "ListDetailed items = (if length items = 0 then null else concat (map detailed_line items))"

definition ListShort :: "FileInfo list \<Rightarrow> string" where
  "ListShort items =
     (if length items = 0 then null else concat (map (\<lambda>item. fi_Name item @ CRLF) items))"

text \<open>The lines of a listing body, as a reader that splits at line feeds sees them.\<close>

definition body_lines :: "string \<Rightarrow> string list" where
  "body_lines b = butlast (strings_Split b LF)"

section \<open>The listing codec: parsing\<close>

datatype EntryType = EntryTypeFile | EntryTypeFolder | EntryTypeLink

record Entry =
  Name :: string
  Type :: EntryType
  Size :: "64 word"
  Time :: GoTime

subsection \<open>\<open>time.Parse\<close> with the layout \<open>_2 Jan 06 15:04 MST\<close>\<close>

text \<open>
  The layout has the chunks \<open>_2\<close>, \<open>Jan\<close>, \<open>06\<close>, \<open>15\<close>, \<open>04\<close> and \<open>MST\<close>, with the
  literal prefixes \<open>" "\<close>, \<open>" "\<close>, \<open>" "\<close>, \<open>":"\<close> and \<open>" "\<close> between them. The functions
  below are the library's \<open>skip\<close> (for a prefix of one byte), \<open>getnum\<close>, \<open>lookup\<close> with its
  case-insensitive \<open>match\<close>, \<open>atoi\<close> and \<open>daysIn\<close>; \<open>None\<close> is the library's error.
\<close>

definition skip1 :: "char \<Rightarrow> string \<Rightarrow> string option" where
  "skip1 p v =
     (if p = CHR '' '' then
        (if v \<noteq> [] \<and> hd v \<noteq> CHR '' '' then None
         else Some (dropWhile (\<lambda>c. c = CHR '' '') v))
      else (if v = [] \<or> hd v \<noteq> p then None else Some (tl v)))"

definition getnum :: "string \<Rightarrow> bool \<Rightarrow> (nat \<times> string) option" where
  "getnum s fixed =
     (case s of
        [] \<Rightarrow> None
      | a # r \<Rightarrow>
          if isDigit a then
            (case r of
               [] \<Rightarrow> (if fixed then None else Some (digit_val a, r))
             | b # r' \<Rightarrow>
                 if isDigit b then Some (digit_val a * 10 + digit_val b, r')
                 else (if fixed then None else Some (digit_val a, r)))
          else None)"

definition or32 :: "char \<Rightarrow> nat" where
  "or32 c = (if (of_char c div 32) mod 2 = (1 :: nat) then of_char c else of_char c + 32)"

definition match_byte :: "char \<Rightarrow> char \<Rightarrow> bool" where
  "match_byte c1 c2 = (c1 = c2 \<or> (or32 c1 = or32 c2 \<and> 97 \<le> or32 c1 \<and> or32 c1 \<le> 122))"

definition match :: "string \<Rightarrow> string \<Rightarrow> bool" where
  "match s1 s2 = (length s1 = length s2 \<and> list_all (\<lambda>(c1, c2). match_byte c1 c2) (zip s1 s2))"

fun lookup_from :: "nat \<Rightarrow> string list \<Rightarrow> string \<Rightarrow> (nat \<times> string) option" where
  "lookup_from i [] val = None"
| "lookup_from i (v # tab) val =
     (if length v \<le> length val \<and> match (take (length v) val) v
      then Some (i, drop (length v) val)
      else lookup_from (Suc i) tab val)"

definition lookup :: "string list \<Rightarrow> string \<Rightarrow> (nat \<times> string) option" where
  "lookup tab val = lookup_from 0 tab val"

definition time_atoi :: "string \<Rightarrow> int option" where
  "time_atoi s =
     (let neg = (s \<noteq> [] \<and> hd s = CHR ''-'');
          ds = (if s \<noteq> [] \<and> (hd s = CHR ''-'' \<or> hd s = CHR ''+'') then tl s else s)
      in if list_all isDigit ds
         then Some (if neg then - int (decimal ds) else int (decimal ds))
         else None)"

definition isLeap :: "int \<Rightarrow> bool" where
  "isLeap y = (y mod 4 = 0 \<and> (y mod 400 = 0 \<or> y mod 100 \<noteq> 0))"

definition daysIn :: "nat \<Rightarrow> int \<Rightarrow> nat" where
  "daysIn m y =
     (if m = 2 \<and> isLeap y then 29
      else [31, 28, 31, 30, 31, 30, 31, 31, 30, 31, 30, 31] ! (m - 1))"

definition stdYear :: "string \<Rightarrow> (int \<times> string) option" where
  "stdYear v =
     (if length v < 2 then None
      else (case time_atoi (take 2 v) of
              None \<Rightarrow> None
            | Some y \<Rightarrow> Some (if 69 \<le> y then y + 1900 else y + 2000, drop 2 v)))"

text \<open>
  \<open>time.Parse("_2 Jan 06 15:04 MST", value)\<close> for a \<open>value\<close> that ends in \<open>" GMT"\<close>, as
  every value \<open>parseListLine\<close> builds does. At the chunk \<open>MST\<close> the library reads a zone
  abbreviation, which never holds a space, and then refuses any text that is left: so
  with \<open>" GMT"\<close> at the end of \<open>value\<close> the parse succeeds exactly when what is left at
  this chunk is \<open>GMT\<close>. The day of the month is checked last.
\<close>

definition time_Parse :: "string \<Rightarrow> error + GoTime" where
  "time_Parse value =
     (case
        Option.bind
          (getnum (if value \<noteq> [] \<and> hd value = CHR '' '' then tl value else value) False)
          (\<lambda>(d, v1). Option.bind (skip1 (CHR '' '') v1)
          (\<lambda>v2. Option.bind (lookup shortMonthNames v2)
          (\<lambda>(m, v3). Option.bind (skip1 (CHR '' '') v3)
          (\<lambda>v4. Option.bind (stdYear v4)
          (\<lambda>(y, v5). Option.bind (skip1 (CHR '' '') v5)
          (\<lambda>v6. Option.bind (getnum v6 False)
          (\<lambda>(h, v7). if 24 \<le> h then None else Option.bind (skip1 (CHR '':'') v7)
          (\<lambda>v8. Option.bind (getnum v8 True)
          (\<lambda>(mi, v9). if 60 \<le> mi then None else Option.bind (skip1 (CHR '' '') v9)
          (\<lambda>v10. if v10 = ''GMT'' \<and> 1 \<le> d \<and> d \<le> daysIn (Suc m) y
                 then Some \<lparr>year = y, month = Suc m, day = d, hour = h, minute = mi,
                            second = 0\<rparr>
                 else None))))))))))
      of None \<Rightarrow> Inl (Error ''parsing time'')
       | Some t \<Rightarrow> Inr t)"

subsection \<open>\<open>parseListLine\<close>\<close>

text \<open>The \<open>switch\<close> on \<open>fields[0][0]\<close>.\<close>

definition entry_type :: "char \<Rightarrow> EntryType option" where
  "entry_type c =
     (if c = CHR ''-'' then Some EntryTypeFile
      else if c = CHR ''d'' then Some EntryTypeFolder
      else if c = CHR ''l'' then Some EntryTypeLink
      else None)"

text \<open>
  The string handed to \<open>time.Parse\<close>; \<open>thisYear\<close> is the year of \<open>time.Now()\<close>. Both
  branches take the bytes 2 and 3 of a string, which panics on a shorter one.
\<close>

definition timeStr :: "int \<Rightarrow> string list \<Rightarrow> string result" where
  "timeStr thisYear fs =
     (if strings_Contains (fs ! 7) '':'' then
        (case slice (strconv_Itoa thisYear) 2 4 of
           Panic p \<Rightarrow> Panic p
         | Return yy \<Rightarrow>
             Return (fs ! 6 @ '' '' @ fs ! 5 @ '' '' @ yy @ '' '' @ fs ! 7 @ '' GMT''))
      else
        (case slice (fs ! 7) 2 4 of
           Panic p \<Rightarrow> Panic p
         | Return yy \<Rightarrow>
             Return (fs ! 6 @ '' '' @ fs ! 5 @ '' '' @ yy @ '' '' @ ''00:00'' @ '' GMT'')))"

text \<open>
  \<open>parseListLine\<close>: \<open>Inl err\<close> is the return \<open>nil, err\<close> and \<open>Inr e\<close> the return \<open>e, nil\<close>.
  The entry starts as Go's zero value, so a folder or link keeps the size 0.
\<close>

definition parseListLine :: "int \<Rightarrow> string \<Rightarrow> (error + Entry) result" where
  "parseListLine thisYear line =
     (let fs = strings_Fields line in
      if length fs < 9 then Return (Inl (Error ''unsupported LIST line''))
      else
        (case index (fs ! 0) 0 of
           Panic p \<Rightarrow> Panic p
         | Return c \<Rightarrow>
            (case entry_type c of
               None \<Rightarrow> Return (Inl (Error ''unknown entry type''))
             | Some ty \<Rightarrow>
                (case (if ty = EntryTypeFile then strconv_ParseUint (fs ! 4) else (0, None)) of
                   (sz, Some err) \<Rightarrow> Return (Inl err)
                 | (sz, None) \<Rightarrow>
                    (case timeStr thisYear fs of
                       Panic p \<Rightarrow> Panic p
                     | Return ts \<Rightarrow>
                        (case time_Parse ts of
                           Inl err \<Rightarrow> Return (Inl err)
                         | Inr t \<Rightarrow>
                             Return (Inr \<lparr>Name = strings_Join (drop 8 fs) '' '',
                                          Type = ty, Size = sz, Time = t\<rparr>)))))))"

subsection \<open>From an entry back to a listing line\<close>

text \<open>
  The repository has no function from an \<open>Entry\<close> to an \<open>os.FileInfo\<close>, which is what
  \<open>ListDetailed\<close> formats. \<open>info_of perm e\<close> is the \<open>FileInfo\<close> that shows the entry \<open>e\<close>:
  its name, its size converted to \<open>int64\<close>, its time, and a mode made of the type bit of
  the entry (none for a file, \<open>ModeDir = 1 << 31\<close> for a folder, \<open>ModeSymlink = 1 << 27\<close>
  for a link) and the nine permission bits of \<open>perm\<close>, which an entry does not keep.
\<close>

definition mode_of :: "EntryType \<Rightarrow> 32 word \<Rightarrow> 32 word" where
  "mode_of ty perm =
     (case ty of
        EntryTypeFile \<Rightarrow> take_bit 9 perm
      | EntryTypeFolder \<Rightarrow> 2 ^ 31 OR take_bit 9 perm
      | EntryTypeLink \<Rightarrow> 2 ^ 27 OR take_bit 9 perm)"

definition info_of :: "32 word \<Rightarrow> Entry \<Rightarrow> FileInfo" where
  "info_of perm e =
     \<lparr>fi_Name = Name e, fi_Size = sint (Size e), fi_Mode = mode_of (Type e) perm,
      fi_ModTime = Time e\<rparr>"

text \<open>A field, as \<open>strings.Fields\<close> returns them: not empty, and without white space.\<close>

definition token :: "string \<Rightarrow> bool" where
  "token w = (w \<noteq> [] \<and> list_all (\<lambda>c. \<not> isSpace c) w)"

text \<open>The entries of the examples.\<close>

definition notes_2019 :: Entry where
  "notes_2019 =
     \<lparr>Name = ''notes.txt'', Type = EntryTypeFile, Size = 10,
      Time = \<lparr>year = 2019, month = 4, day = 1, hour = 0, minute = 0, second = 0\<rparr>\<rparr>"

definition notes_2026 :: Entry where
  "notes_2026 =
     \<lparr>Name = ''notes.txt'', Type = EntryTypeFile, Size = 10,
      Time = \<lparr>year = 2026, month = 4, day = 1, hour = 0, minute = 0, second = 0\<rparr>\<rparr>"

definition my_docs :: Entry where
  "my_docs =
     \<lparr>Name = ''my docs'', Type = EntryTypeFolder, Size = 0,
      Time = \<lparr>year = 2026, month = 2, day = 9, hour = 7, minute = 5, second = 0\<rparr>\<rparr>"

definition latest_link :: Entry where
  "latest_link =
     \<lparr>Name = ''latest'', Type = EntryTypeLink, Size = 0,
      Time = \<lparr>year = 2026, month = 4, day = 1, hour = 12, minute = 0, second = 0\<rparr>\<rparr>"

definition big_file :: Entry where
  "big_file =
     \<lparr>Name = ''big'', Type = EntryTypeFile, Size = 2 ^ 63,
      Time = \<lparr>year = 2026, month = 4, day = 1, hour = 12, minute = 0, second = 0\<rparr>\<rparr>"

definition leap_day_dir :: Entry where
  "leap_day_dir =
     \<lparr>Name = ''backup'', Type = EntryTypeFolder, Size = 0,
      Time = \<lparr>year = 2024, month = 2, day = 29, hour = 0, minute = 0, second = 0\<rparr>\<rparr>"

section \<open>Status codes and command names\<close>

text \<open>
  Modelled from the spec: the file of the repository that declares the status constants
  and the command names is not among the sources. The numbers are the ones section 6 of
  the specification lists; for file-unavailable it lists 450 and 550, and 550 is taken for
  the constant (the handler of \<open>STOR\<close> writes 450 and 550 as literals).
\<close>

definition StatusAlreadyOpen :: int where "StatusAlreadyOpen = 125"
definition StatusAboutToSend :: int where "StatusAboutToSend = 150"
definition StatusCommandOK :: int where "StatusCommandOK = 200"
definition StatusSystem :: int where "StatusSystem = 211"
definition StatusFile :: int where "StatusFile = 213"
definition StatusName :: int where "StatusName = 215"
definition StatusReady :: int where "StatusReady = 220"
definition StatusClosingDataConnection :: int where "StatusClosingDataConnection = 226"
definition StatusPassiveMode :: int where "StatusPassiveMode = 227"
definition StatusExtendedPassiveMode :: int where "StatusExtendedPassiveMode = 229"
definition StatusLoggedIn :: int where "StatusLoggedIn = 230"
definition StatusRequestedFileActionOK :: int where "StatusRequestedFileActionOK = 250"
definition StatusPathCreated :: int where "StatusPathCreated = 257"
definition StatusUserOK :: int where "StatusUserOK = 331"
definition StatusRequestFilePending :: int where "StatusRequestFilePending = 350"
definition StatusCanNotOpenDataConnection :: int where "StatusCanNotOpenDataConnection = 425"
definition StatusTransfertAborted :: int where "StatusTransfertAborted = 426"
definition StatusBadArguments :: int where "StatusBadArguments = 501"
definition StatusCommandNotImplemented :: int where "StatusCommandNotImplemented = 502"
definition StatusFileUnavailable :: int where "StatusFileUnavailable = 550"

section \<open>The client\<close>

text \<open>
  The network is the environment of the client: what a dial, a send and a read return is
  given by functions of the history, the list of the calls made so far. Every call is
  appended to the history, so the history also tells which sockets were dialed and closed.
\<close>

datatype cevent = Dialed string | Sent string | ReadReply | ClosedControl | ClosedData string

record CEnv =
  net_DialTimeout :: "cevent list \<Rightarrow> string \<Rightarrow> error + string"
  conn_Cmd :: "cevent list \<Rightarrow> string \<Rightarrow> error option"
  conn_ReadResponse :: "cevent list \<Rightarrow> error + int \<times> string"
  conn_Close :: "cevent list \<Rightarrow> error option"

text \<open>
  \<open>net_DialTimeout\<close> returns the error of the dial or the IP address of the peer;
  \<open>conn_ReadResponse\<close> returns a read error or the code and message of the next reply.
  A \<open>ClientConn\<close> holds what the source keeps beside the connection itself; a pointer
  to one is a \<^typ>\<open>'a option\<close>, \<open>None\<close> for \<open>nil\<close>. A data connection is named by the
  address it was dialed at.
\<close>

record ClientConn =
  cc_host :: string
  cc_timeout :: int
  cc_features :: "string \<rightharpoonup> string"

text \<open>
  \<open>textproto.ReadResponse(expectCode)\<close>: the reply is returned with an error when its
  code does not match the digits of \<open>expectCode\<close>; \<open>expectCode \<le> 0\<close> matches all.
\<close>

definition code_mismatch :: "int \<Rightarrow> int \<Rightarrow> bool" where
  "code_mismatch expectCode code =
     ((1 \<le> expectCode \<and> expectCode < 10 \<and> code div 100 \<noteq> expectCode) \<or>
      (10 \<le> expectCode \<and> expectCode < 100 \<and> code div 10 \<noteq> expectCode) \<or>
      (100 \<le> expectCode \<and> expectCode < 1000 \<and> code \<noteq> expectCode))"

definition ReadResponse ::
  "CEnv \<Rightarrow> int \<Rightarrow> cevent list \<Rightarrow> (int \<times> string \<times> error option) \<times> cevent list" where
  "ReadResponse env expectCode tr =
     (case conn_ReadResponse env tr of
        Inl err \<Rightarrow> ((0, [], Some err), tr @ [ReadReply])
      | Inr (code, msg) \<Rightarrow>
          ((code, msg,
            if code_mismatch expectCode code then Some (ProtocolError code msg) else None),
           tr @ [ReadReply]))"

text \<open>\<open>ClientConn.cmd\<close>; \<open>line\<close> is the formatted command.\<close>

definition ClientConn_cmd ::
  "CEnv \<Rightarrow> int \<Rightarrow> string \<Rightarrow> cevent list \<Rightarrow> (int \<times> string \<times> error option) \<times> cevent list" where
  "ClientConn_cmd env expected line tr =
     (case conn_Cmd env tr line of
        Some err \<Rightarrow> ((0, [], Some err), tr @ [Sent line])
      | None \<Rightarrow> ReadResponse env expected (tr @ [Sent line]))"

text \<open>\<open>Quit\<close> reads \<open>c.conn\<close> first: on a nil receiver it panics.\<close>

definition Quit ::
  "CEnv \<Rightarrow> ClientConn option \<Rightarrow> cevent list \<Rightarrow> (error option \<times> cevent list) result" where
  "Quit env c tr =
     (case c of
        None \<Rightarrow> Panic NilPointerDereference
      | Some _ \<Rightarrow>
          Return (conn_Close env (tr @ [Sent ''QUIT'']), tr @ [Sent ''QUIT'', ClosedControl]))"

text \<open>One iteration of the loop of \<open>feat\<close> over the lines of the reply.\<close>

definition feat_line :: "string \<Rightarrow> (string \<rightharpoonup> string) \<Rightarrow> (string \<rightharpoonup> string)" where
  "feat_line line features =
     (if \<not> strings_HasPrefix line '' '' then features
      else
        (let featureElements = strings_SplitN2 (strings_TrimSpace line) (CHR '' '') in
         features(hd featureElements \<mapsto>
           (if length featureElements = 2 then featureElements ! 1 else []))))"

definition feat ::
  "CEnv \<Rightarrow> ClientConn \<Rightarrow> cevent list \<Rightarrow> (ClientConn \<times> error option) \<times> cevent list" where
  "feat env c tr =
     (case ClientConn_cmd env (- 1) ''FEAT'' tr of
        ((code, message, Some err), tr') \<Rightarrow> ((c, Some err), tr')
      | ((code, message, None), tr') \<Rightarrow>
          if code \<noteq> StatusSystem then ((c, None), tr')
          else
            ((c\<lparr>cc_features := foldl (\<lambda>f l. feat_line l f) (cc_features c)
                                   (strings_Split message LF)\<rparr>, None), tr'))"

definition setUTF8 ::
  "CEnv \<Rightarrow> ClientConn \<Rightarrow> cevent list \<Rightarrow> error option \<times> cevent list" where
  "setUTF8 env c tr =
     (case cc_features c ''UTF8'' of
        None \<Rightarrow> (None, tr)
      | Some _ \<Rightarrow>
          (case ClientConn_cmd env (- 1) ''OPTS UTF8 ON'' tr of
             ((code, message, Some err), tr') \<Rightarrow> (Some err, tr')
           | ((code, message, None), tr') \<Rightarrow>
               if code \<noteq> StatusCommandOK then (Some (Error message), tr') else (None, tr')))"

text \<open>
  \<open>DialTimeout\<close> returns a pointer and an error, kept as a pair as in the source. After a
  failed greeting, \<open>FEAT\<close> or \<open>OPTS\<close> it calls \<open>Quit\<close> on the connection it has built.
\<close>

definition quit_and_fail ::
  "CEnv \<Rightarrow> ClientConn \<Rightarrow> error \<Rightarrow> cevent list
   \<Rightarrow> ((ClientConn option \<times> error option) \<times> cevent list) result" where
  "quit_and_fail env c err tr =
     (case Quit env (Some c) tr of
        Panic p \<Rightarrow> Panic p
      | Return (_, tr') \<Rightarrow> Return ((None, Some err), tr'))"

definition DialTimeout ::
  "CEnv \<Rightarrow> string \<Rightarrow> int \<Rightarrow> cevent list
   \<Rightarrow> ((ClientConn option \<times> error option) \<times> cevent list) result" where
  "DialTimeout env addr timeout tr =
     (case net_DialTimeout env tr addr of
        Inl err \<Rightarrow> Return ((None, Some err), tr @ [Dialed addr])
      | Inr ip \<Rightarrow>
          (let c = \<lparr>cc_host = ip, cc_timeout = timeout, cc_features = Map.empty\<rparr> in
           case ReadResponse env StatusReady (tr @ [Dialed addr]) of
             ((code, msg, Some err), tr1) \<Rightarrow> quit_and_fail env c err tr1
           | ((code, msg, None), tr1) \<Rightarrow>
               (case feat env c tr1 of
                  ((c1, Some err), tr2) \<Rightarrow> quit_and_fail env c1 err tr2
                | ((c1, None), tr2) \<Rightarrow>
                    (case setUTF8 env c1 tr2 of
                       (Some err, tr3) \<Rightarrow> quit_and_fail env c1 err tr3
                     | (None, tr3) \<Rightarrow> Return ((Some c1, None), tr3)))))"

definition Dial ::
  "CEnv \<Rightarrow> string \<Rightarrow> cevent list
   \<Rightarrow> ((ClientConn option \<times> error option) \<times> cevent list) result" where
  "Dial env addr tr = DialTimeout env addr 0 tr"

text \<open>\<open>Login\<close> reads \<open>c.conn\<close> in its first statement: on a nil receiver it panics.\<close>

definition binary_mode :: "CEnv \<Rightarrow> cevent list \<Rightarrow> error option \<times> cevent list" where
  "binary_mode env tr =
     (case ClientConn_cmd env StatusCommandOK ''TYPE I'' tr of ((code, msg, err), tr') \<Rightarrow> (err, tr'))"

definition Login ::
  "CEnv \<Rightarrow> ClientConn option \<Rightarrow> string \<Rightarrow> string \<Rightarrow> cevent list
   \<Rightarrow> (error option \<times> cevent list) result" where
  "Login env c user password tr =
     (case c of
        None \<Rightarrow> Panic NilPointerDereference
      | Some _ \<Rightarrow>
          (case ClientConn_cmd env (- 1) (''USER '' @ user) tr of
             ((code, message, Some err), tr1) \<Rightarrow> Return (Some err, tr1)
           | ((code, message, None), tr1) \<Rightarrow>
               if code = StatusLoggedIn then Return (binary_mode env tr1)
               else if code = StatusUserOK then
                 (case ClientConn_cmd env StatusLoggedIn (''PASS '' @ password) tr1 of
                    ((_, _, Some err), tr2) \<Rightarrow> Return (Some err, tr2)
                  | ((_, _, None), tr2) \<Rightarrow> Return (binary_mode env tr2))
               else Return (Some (Error message), tr1)))"

text \<open>\<open>Connect\<close>: when \<open>Dial\<close> returns an error it calls \<open>Quit\<close> on the pointer it got.\<close>

definition Connect ::
  "CEnv \<Rightarrow> string \<Rightarrow> string \<Rightarrow> string \<Rightarrow> cevent list
   \<Rightarrow> ((ClientConn option \<times> error option) \<times> cevent list) result" where
  "Connect env addr user password tr =
     (case Dial env addr tr of
        Panic p \<Rightarrow> Panic p
      | Return ((c, Some err), tr1) \<Rightarrow>
          (case Quit env c tr1 of
             Panic p \<Rightarrow> Panic p
           | Return (_, tr2) \<Rightarrow> Return ((None, Some err), tr2))
      | Return ((c, None), tr1) \<Rightarrow>
          (case Login env c user password tr1 of
             Panic p \<Rightarrow> Panic p
           | Return (err, tr2) \<Rightarrow> Return ((c, err), tr2)))"

subsection \<open>Passive mode and the data connection\<close>

text \<open>Go's \<open>int\<close>, 64 bits wide: arithmetic wraps around.\<close>

definition int64 :: "int \<Rightarrow> int" where
  "int64 i = signed_take_bit 63 i"

text \<open>
  The body of \<open>epsv\<close> and of \<open>pasv\<close> after the reply \<open>line\<close> has been read. The results
  are the named results \<open>port\<close> and \<open>err\<close> of the source.
\<close>

definition epsv_parse :: "string \<Rightarrow> (int \<times> error option) result" where
  "epsv_parse line =
     (let start = strings_Index line ''|||''; end = strings_LastIndex line ''|'' in
      if start = - 1 \<or> end = - 1 then Return (0, Some (Error ''invalid EPSV response format''))
      else
        (case slice line (start + 3) end of
           Panic p \<Rightarrow> Panic p
         | Return ds \<Rightarrow> Return (strconv_Atoi ds)))"

definition pasv_parse :: "string \<Rightarrow> (int \<times> error option) result" where
  "pasv_parse line =
     (let start = strings_Index line ''(''; end = strings_LastIndex line '')'' in
      if start = - 1 \<or> end = - 1 then Return (0, Some (Error ''invalid PASV response format''))
      else
        (case slice line (start + 1) end of
           Panic p \<Rightarrow> Panic p
         | Return inner \<Rightarrow>
             (let lst = strings_Split inner (CHR '','');
                  n = int (length lst) in
              case index lst (n - 2) of
                Panic p \<Rightarrow> Panic p
              | Return xs \<Rightarrow>
                  (case index lst (n - 1) of
                     Panic p \<Rightarrow> Panic p
                   | Return ys \<Rightarrow>
                       Return (int64 (fst (strconv_Atoi xs) * 256 + fst (strconv_Atoi ys)),
                               None)))))"

definition epsv ::
  "CEnv \<Rightarrow> cevent list \<Rightarrow> ((int \<times> error option) \<times> cevent list) result" where
  "epsv env tr =
     (case ClientConn_cmd env StatusExtendedPassiveMode ''EPSV'' tr of
        ((code, line, Some err), tr') \<Rightarrow> Return ((0, Some err), tr')
      | ((code, line, None), tr') \<Rightarrow>
          (case epsv_parse line of Panic p \<Rightarrow> Panic p | Return r \<Rightarrow> Return (r, tr')))"

definition pasv ::
  "CEnv \<Rightarrow> cevent list \<Rightarrow> ((int \<times> error option) \<times> cevent list) result" where
  "pasv env tr =
     (case ClientConn_cmd env StatusPassiveMode ''PASV'' tr of
        ((code, line, Some err), tr') \<Rightarrow> Return ((0, Some err), tr')
      | ((code, line, None), tr') \<Rightarrow>
          (case pasv_parse line of Panic p \<Rightarrow> Panic p | Return r \<Rightarrow> Return (r, tr')))"

definition net_JoinHostPort :: "string \<Rightarrow> string \<Rightarrow> string" where
  "net_JoinHostPort host port =
     (if CHR '':'' \<in> set host then ''['' @ host @ '']:'' @ port else host @ '':'' @ port)"

text \<open>The last statement of \<open>openDataConn\<close>: the dial of the data connection.\<close>

definition dial_data ::
  "CEnv \<Rightarrow> ClientConn \<Rightarrow> int \<Rightarrow> cevent list \<Rightarrow> (error + string) \<times> cevent list" where
  "dial_data env c port tr =
     (let addr = net_JoinHostPort (cc_host c) (strconv_Itoa port) in
      (case net_DialTimeout env tr addr of
         Inl err \<Rightarrow> Inl err
       | Inr _ \<Rightarrow> Inr addr,
       tr @ [Dialed addr]))"

text \<open>
  \<open>openDataConn\<close>: \<open>epsv\<close>, then \<open>pasv\<close> when \<open>epsv\<close> returned an error; the body of the
  inner \<open>if\<close> is empty, so the dial is reached on every path that does not panic.
\<close>

definition openDataConn ::
  "CEnv \<Rightarrow> ClientConn \<Rightarrow> cevent list \<Rightarrow> ((error + string) \<times> cevent list) result" where
  "openDataConn env c tr =
     (case epsv env tr of
        Panic p \<Rightarrow> Panic p
      | Return ((port, None), tr1) \<Rightarrow> Return (dial_data env c port tr1)
      | Return ((port, Some err), tr1) \<Rightarrow>
          (case pasv env tr1 of
             Panic p \<Rightarrow> Panic p
           | Return ((port', err'), tr2) \<Rightarrow> Return (dial_data env c port' tr2)))"

text \<open>
  \<open>cmdDataConnFrom\<close>; \<open>line\<close> is the formatted transfer command. \<open>Inl err\<close> is the return
  \<open>nil, err\<close> and \<open>Inr conn\<close> the return \<open>conn, nil\<close>.
\<close>

definition transfer_cmd ::
  "CEnv \<Rightarrow> string \<Rightarrow> string \<Rightarrow> cevent list \<Rightarrow> (error + string) \<times> cevent list" where
  "transfer_cmd env conn line tr =
     (case conn_Cmd env tr line of
        Some err \<Rightarrow> (Inl err, tr @ [Sent line, ClosedData conn])
      | None \<Rightarrow>
          (case ReadResponse env (- 1) (tr @ [Sent line]) of
             ((code, msg, Some err), tr') \<Rightarrow> (Inl err, tr' @ [ClosedData conn])
           | ((code, msg, None), tr') \<Rightarrow>
               if code \<noteq> StatusAlreadyOpen \<and> code \<noteq> StatusAboutToSend
               then (Inl (ProtocolError code msg), tr' @ [ClosedData conn])
               else (Inr conn, tr')))"

definition cmdDataConnFrom ::
  "CEnv \<Rightarrow> ClientConn \<Rightarrow> 64 word \<Rightarrow> string \<Rightarrow> cevent list
   \<Rightarrow> ((error + string) \<times> cevent list) result" where
  "cmdDataConnFrom env c offset line tr =
     (case openDataConn env c tr of
        Panic p \<Rightarrow> Panic p
      | Return (Inl err, tr1) \<Rightarrow> Return (Inl err, tr1)
      | Return (Inr conn, tr1) \<Rightarrow>
          if offset \<noteq> 0 then
            (case ClientConn_cmd env StatusRequestFilePending (''REST '' @ digits (unat offset)) tr1 of
               ((_, _, Some err), tr2) \<Rightarrow> Return (Inl err, tr2 @ [ClosedData conn])
             | ((_, _, None), tr2) \<Rightarrow> Return (transfer_cmd env conn line tr2))
          else Return (transfer_cmd env conn line tr1))"

text \<open>
  A server that refuses every command with 500, on a network where nothing listens at the
  port 0: the environment of the example for \<open>openDataConn\<close>.
\<close>

definition refusing_server :: CEnv where
  "refusing_server =
     \<lparr>net_DialTimeout = (\<lambda>tr addr. Inl (Error ''connection refused'')),
      conn_Cmd = (\<lambda>tr line. None),
      conn_ReadResponse = (\<lambda>tr. Inr (500, ''Unknown command'')),
      conn_Close = (\<lambda>tr. None)\<rparr>"

text \<open>A network on which no address can be reached.\<close>

definition unreachable :: CEnv where
  "unreachable =
     \<lparr>net_DialTimeout = (\<lambda>tr addr. Inl (Error ''no route to host'')),
      conn_Cmd = (\<lambda>tr line. Some (Error ''closed'')),
      conn_ReadResponse = (\<lambda>tr. Inl (Error ''EOF'')),
      conn_Close = (\<lambda>tr. None)\<rparr>"

section \<open>The server\<close>

text \<open>
  Modelled from the spec: the command names, declared in the same missing file as the
  status constants; section 6 of the specification lists them.
\<close>

definition USER :: string where "USER = ''USER''"
definition PASS :: string where "PASS = ''PASS''"
definition PWD :: string where "PWD = ''PWD''"
definition CWD :: string where "CWD = ''CWD''"
definition DELE :: string where "DELE = ''DELE''"
definition EPSV :: string where "EPSV = ''EPSV''"
definition SIZE :: string where "SIZE = ''SIZE''"
definition LIST :: string where "LIST = ''LIST''"
definition MKD :: string where "MKD = ''MKD''"
definition NOOP :: string where "NOOP = ''NOOP''"
definition PASV :: string where "PASV = ''PASV''"
definition QUIT :: string where "QUIT = ''QUIT''"
definition RETR :: string where "RETR = ''RETR''"
definition RMD :: string where "RMD = ''RMD''"
definition XRMD :: string where "XRMD = ''XRMD''"
definition RNFR :: string where "RNFR = ''RNFR''"
definition RNTO :: string where "RNTO = ''RNTO''"
definition SYST :: string where "SYST = ''SYST''"
definition STOR :: string where "STOR = ''STOR''"
definition TYPE_cmd :: string where "TYPE_cmd = ''TYPE''"

subsection \<open>Package path\<close>

text \<open>
  \<open>path.Clean\<close>, element by element: empty elements and \<open>.\<close> are dropped, \<open>..\<close> removes
  the element before it, is dropped at the root, and is kept at the start of a path that
  is not rooted. \<open>path.Join\<close> of two elements ignores an empty one and cleans the result.
\<close>

definition clean_step :: "bool \<Rightarrow> string list \<Rightarrow> string \<Rightarrow> string list" where
  "clean_step rooted out e =
     (if e = [] \<or> e = ''.'' then out
      else if e = ''..'' then
        (if out \<noteq> [] \<and> last out \<noteq> ''..'' then butlast out
         else if rooted then out else out @ [e])
      else out @ [e])"

definition path_Clean :: "string \<Rightarrow> string" where
  "path_Clean p =
     (if p = [] then ''.''
      else
        (let rooted = (hd p = CHR ''/'');
             out = foldl (clean_step rooted) [] (strings_Split p (CHR ''/''))
         in if rooted then ''/'' @ strings_Join out ''/''
            else if out = [] then ''.'' else strings_Join out ''/''))"

definition path_Join :: "string \<Rightarrow> string \<Rightarrow> string" where
  "path_Join a b =
     (if a = [] \<and> b = [] then []
      else path_Clean (if a = [] then b else if b = [] then a else a @ ''/'' @ b))"

subsection \<open>The session and its environment\<close>

text \<open>
  A \<open>PassiveConn\<close> is the listener's host and port; the socket it accepts, its channel and
  its error belong to the goroutine that accepts, and what a read or a write on it gives
  comes from the environment.
\<close>

record PassiveConn =
  pc_host :: string
  pc_port :: string

text \<open>
  The calls a session makes on its control connection, on the operating system and on a
  data connection, in the order it makes them. \<open>trace\<close> of a session is this history.
\<close>

datatype sevent =
    Wrote string
  | WriteFailed string
  | ClosedConn
  | Listened string
  | DataWrote PassiveConn string
  | DataClosed PassiveConn
  | Copied string "PassiveConn option"
  | Stat string
  | Removed string
  | Mkdir string
  | Renamed string string
  | RemovedAll string
  | ReadFile string
  | OpenedFile string
  | Readdir string

text \<open>
  The environment of a session: what each call returns, as a function of the history.
  \<open>Message\<close> is the table of status texts of the missing file. \<open>os_Stat\<close> returns the
  error, with which the \<open>FileInfo\<close> is nil, or the \<open>FileInfo\<close>. \<open>net_ListenTCP\<close> returns
  the error of resolving or listening, or the listener's address as text.
  \<open>file_ReadFrom\<close> tells whether \<open>*os.File\<close> has the method \<open>ReadFrom\<close>, as from Go 1.15 on,
  where \<open>io.Copy\<close> to a nil file returns before it reads its source.
\<close>

record SEnv =
  Message :: "int \<Rightarrow> string"
  writer_WriteString :: "sevent list \<Rightarrow> string \<Rightarrow> error option"
  os_Stat :: "sevent list \<Rightarrow> string \<Rightarrow> error + FileInfo"
  os_Mkdir :: "sevent list \<Rightarrow> string \<Rightarrow> error option"
  os_Rename :: "sevent list \<Rightarrow> string \<Rightarrow> string \<Rightarrow> error option"
  os_RemoveAll :: "sevent list \<Rightarrow> string \<Rightarrow> error option"
  os_OpenFile :: "sevent list \<Rightarrow> string \<Rightarrow> error option"
  ioutil_ReadFile :: "sevent list \<Rightarrow> string \<Rightarrow> error + string"
  file_Readdir :: "sevent list \<Rightarrow> string \<Rightarrow> FileInfo list"
  net_ListenTCP :: "sevent list \<Rightarrow> string \<Rightarrow> error + string"
  dataConn_Write :: "sevent list \<Rightarrow> PassiveConn \<Rightarrow> string \<Rightarrow> int"
  io_Copy :: "sevent list \<Rightarrow> string \<Rightarrow> PassiveConn \<Rightarrow> int"
  file_ReadFrom :: bool

record ServerConn =
  dataConn :: "PassiveConn option"
  prefix :: string
  host :: string
  rn :: string
  trace :: "sevent list"

definition log :: "sevent list \<Rightarrow> ServerConn \<Rightarrow> ServerConn" where
  "log es s = s\<lparr>trace := trace s @ es\<rparr>"

text \<open>\<open>fmt.Sprint(err)\<close>.\<close>

definition error_text :: "error \<Rightarrow> string" where
  "error_text e =
     (case e of Error m \<Rightarrow> m | ProtocolError code m \<Rightarrow> strconv_Itoa code @ '' '' @ m)"

subsection \<open>\<open>PassiveConn\<close>\<close>

definition NewPassiveConn :: "SEnv \<Rightarrow> string \<Rightarrow> sevent list \<Rightarrow> (error + PassiveConn) result" where
  "NewPassiveConn env h tr =
     (case net_ListenTCP env tr (h @ '':0'') of
        Inl err \<Rightarrow> Return (Inl err)
      | Inr addr \<Rightarrow>
          (let parts = strings_Split addr (CHR '':'') in
           case index parts 0 of
             Panic p \<Rightarrow> Panic p
           | Return p0 \<Rightarrow>
               (case index parts 1 of
                  Panic p \<Rightarrow> Panic p
                | Return p1 \<Rightarrow> Return (Inr \<lparr>pc_host = p0, pc_port = p1\<rparr>))))"

definition PassiveConn_Host :: "PassiveConn \<Rightarrow> string" where
  "PassiveConn_Host passiveConn = ''127.0.0.1''"

definition PassiveConn_Port :: "PassiveConn \<Rightarrow> int" where
  "PassiveConn_Port passiveConn = fst (strconv_Atoi (pc_port passiveConn))"

subsection \<open>Replies\<close>

definition Close :: "ServerConn \<Rightarrow> ServerConn" where
  "Close s =
     (case dataConn s of
        None \<Rightarrow> log [ClosedConn] s
      | Some pc \<Rightarrow> (log [ClosedConn, DataClosed pc] s)\<lparr>dataConn := None\<rparr>)"

definition ServerConn_cmd :: "SEnv \<Rightarrow> string \<Rightarrow> ServerConn \<Rightarrow> ServerConn" where
  "ServerConn_cmd env msg s =
     (case writer_WriteString env (trace s) (msg @ CRLF) of
        Some err \<Rightarrow> Close (log [WriteFailed (msg @ CRLF)] s)
      | None \<Rightarrow> log [Wrote (msg @ CRLF)] s)"

definition sendCodeLine :: "SEnv \<Rightarrow> int \<Rightarrow> string \<Rightarrow> ServerConn \<Rightarrow> ServerConn" where
  "sendCodeLine env code msg s = ServerConn_cmd env (strconv_Itoa code @ '' '' @ msg) s"

definition sendStatusText :: "SEnv \<Rightarrow> int \<Rightarrow> ServerConn \<Rightarrow> ServerConn" where
  "sendStatusText env code s = sendCodeLine env code (Message env code) s"

definition sendData :: "SEnv \<Rightarrow> string \<Rightarrow> ServerConn \<Rightarrow> ServerConn" where
  "sendData env data s =
     (case dataConn s of
        Some pc \<Rightarrow>
          (let n = dataConn_Write env (trace s) pc data in
           sendCodeLine env StatusClosingDataConnection
             (''Closing data connection, sent '' @ strconv_Itoa n @ '' bytes.'')
             (log [DataWrote pc data, DataClosed pc] s))
      | None \<Rightarrow> sendStatusText env StatusTransfertAborted s)"

definition parsingPath :: "ServerConn \<Rightarrow> string list \<Rightarrow> string" where
  "parsingPath s params =
     (let p = strings_Join params '' '' in
      if strings_HasPrefix p ''/'' then path_Join ''.'' p else path_Join (prefix s) p)"

subsection \<open>The cases of the \<open>switch\<close> in \<open>Serve\<close>\<close>

text \<open>
  Each case returns the session after it; \<open>params\<close> is the split command line. In
  \<open>CWD\<close>, \<open>SIZE\<close> and \<open>RMD\<close> the condition calls \<open>f.IsDir()\<close> before it looks at \<open>err\<close>, and
  \<open>f\<close> is nil when \<open>os.Stat\<close> returned an error.
\<close>

definition serve_CWD :: "SEnv \<Rightarrow> ServerConn \<Rightarrow> string list \<Rightarrow> ServerConn result" where
  "serve_CWD env s params =
     (let p = parsingPath s (drop 1 params) in
      case os_Stat env (trace s) p of
        Inl err \<Rightarrow> Panic NilPointerDereference
      | Inr f \<Rightarrow>
          if IsDir f
          then Return (sendCodeLine env StatusRequestedFileActionOK
                         (''Directory changed to '' @ p) ((log [Stat p] s)\<lparr>prefix := p\<rparr>))
          else Return (sendStatusText env StatusFileUnavailable (log [Stat p] s)))"

definition serve_DELE :: "SEnv \<Rightarrow> ServerConn \<Rightarrow> string list \<Rightarrow> ServerConn" where
  "serve_DELE env s params =
     (let p = parsingPath s (drop 1 params) in
      case os_Stat env (trace s) p of
        Inl err \<Rightarrow> sendStatusText env StatusFileUnavailable (log [Stat p] s)
      | Inr f \<Rightarrow>
          sendCodeLine env StatusRequestedFileActionOK ''File deleted.''
            (log [Stat p, Removed p] s))"

definition serve_EPSV :: "SEnv \<Rightarrow> ServerConn \<Rightarrow> ServerConn result" where
  "serve_EPSV env s =
     (case NewPassiveConn env (host s) (trace s) of
        Panic p \<Rightarrow> Panic p
      | Return (Inl err) \<Rightarrow>
          Return (sendStatusText env StatusCanNotOpenDataConnection
                    (log [Listened (host s @ '':0'')] s))
      | Return (Inr passiveConn) \<Rightarrow>
          Return (sendCodeLine env StatusExtendedPassiveMode
                    (''Entering Extended Passive Mode (|||''
                       @ strconv_Itoa (PassiveConn_Port passiveConn) @ ''|)'')
                    ((log [Listened (host s @ '':0'')] s)\<lparr>dataConn := Some passiveConn\<rparr>)))"

definition serve_SIZE :: "SEnv \<Rightarrow> ServerConn \<Rightarrow> string list \<Rightarrow> ServerConn result" where
  "serve_SIZE env s params =
     (let p = parsingPath s (drop 1 params) in
      case os_Stat env (trace s) p of
        Inl err \<Rightarrow> Panic NilPointerDereference
      | Inr f \<Rightarrow>
          if IsDir f then Return (sendCodeLine env StatusFile ''1024'' (log [Stat p] s))
          else Return (sendCodeLine env StatusFile (strconv_Itoa (fi_Size f)) (log [Stat p] s)))"

definition serve_LIST :: "SEnv \<Rightarrow> ServerConn \<Rightarrow> ServerConn" where
  "serve_LIST env s =
     (let s1 = sendCodeLine env StatusAboutToSend
                 ''Opening ASCII mode data connection for file list'' s;
          items = file_Readdir env (trace s1) (prefix s1);
          info = ListDetailed items
      in sendData env info (log [Readdir (prefix s1)] s1))"

definition serve_MKD :: "SEnv \<Rightarrow> ServerConn \<Rightarrow> string list \<Rightarrow> ServerConn" where
  "serve_MKD env s params =
     (let p = parsingPath s (drop 1 params) in
      case os_Mkdir env (trace s) p of
        None \<Rightarrow> sendStatusText env StatusPathCreated (log [Mkdir p] s)
      | Some err \<Rightarrow> sendCodeLine env StatusFileUnavailable (error_text err) (log [Mkdir p] s))"

text \<open>Go's integer division truncates towards zero.\<close>

definition quo :: "int \<Rightarrow> int \<Rightarrow> int" where
  "quo a b = sgn a * sgn b * (\<bar>a\<bar> div \<bar>b\<bar>)"

definition serve_PASV :: "SEnv \<Rightarrow> ServerConn \<Rightarrow> ServerConn result" where
  "serve_PASV env s =
     (case NewPassiveConn env (host s) (trace s) of
        Panic p \<Rightarrow> Panic p
      | Return (Inl err) \<Rightarrow>
          Return (sendStatusText env StatusCanNotOpenDataConnection
                    (log [Listened (host s @ '':0'')] s))
      | Return (Inr passiveConn) \<Rightarrow>
          (let port = PassiveConn_Port passiveConn;
               x = quo port 256;
               y = port - x * 256;
               quad = strings_ReplaceAll (PassiveConn_Host passiveConn) (CHR ''.'') (CHR '','');
               msg = ''Entering Passive Mode ('' @ quad @ '','' @ strconv_Itoa x @ '',''
                       @ strconv_Itoa y @ '')''
           in Return (sendCodeLine env 227 msg
                        ((log [Listened (host s @ '':0'')] s)\<lparr>dataConn := Some passiveConn\<rparr>))))"

definition serve_RETR :: "SEnv \<Rightarrow> ServerConn \<Rightarrow> string list \<Rightarrow> ServerConn" where
  "serve_RETR env s params =
     (let p = parsingPath s (drop 1 params) in
      case ioutil_ReadFile env (trace s) p of
        Inl err \<Rightarrow> sendCodeLine env StatusFileUnavailable (error_text err) (log [ReadFile p] s)
      | Inr data \<Rightarrow>
          sendData env data
            (sendCodeLine env 150
               (''Data transfer starting '' @ strconv_Itoa (int (length data)) @ ''bytes'')
               (log [ReadFile p] s)))"

definition serve_RMD :: "SEnv \<Rightarrow> ServerConn \<Rightarrow> string list \<Rightarrow> ServerConn result" where
  "serve_RMD env s params =
     (let p = parsingPath s (drop 1 params) in
      case os_Stat env (trace s) p of
        Inl err \<Rightarrow> Panic NilPointerDereference
      | Inr f \<Rightarrow>
          if IsDir f then
            (case os_RemoveAll env (trace s @ [Stat p]) p of
               Some err \<Rightarrow>
                 Return (sendCodeLine env StatusFileUnavailable (error_text err)
                           (log [Stat p, RemovedAll p] s))
             | None \<Rightarrow>
                 Return (sendCodeLine env StatusRequestedFileActionOK ''Directory deleted.''
                           (log [Stat p, RemovedAll p] s)))
          else Return (sendStatusText env StatusFileUnavailable (log [Stat p] s)))"

definition serve_RNFR :: "SEnv \<Rightarrow> ServerConn \<Rightarrow> string list \<Rightarrow> ServerConn" where
  "serve_RNFR env s params =
     sendStatusText env StatusRequestFilePending (s\<lparr>rn := parsingPath s (drop 1 params)\<rparr>)"

definition serve_RNTO :: "SEnv \<Rightarrow> ServerConn \<Rightarrow> string list \<Rightarrow> ServerConn" where
  "serve_RNTO env s params =
     (let p = parsingPath s (drop 1 params) in
      case os_Rename env (trace s) (rn s) p of
        Some err \<Rightarrow>
          sendCodeLine env StatusFileUnavailable (error_text err) (log [Renamed (rn s) p] s)
      | None \<Rightarrow>
          sendCodeLine env StatusRequestedFileActionOK ''File renamed.''
            (log [Renamed (rn s) p] s))"

text \<open>
  \<open>STOR\<close>: after a failed \<open>os.OpenFile\<close> the handler goes on with the nil file. \<open>io.Copy\<close>
  calls \<open>Read\<close> on the data connection, a nil interface when no passive command came
  before; \<open>n \<ge> 0\<close> is tested as the source does.
\<close>

definition serve_STOR :: "SEnv \<Rightarrow> ServerConn \<Rightarrow> string list \<Rightarrow> ServerConn result" where
  "serve_STOR env s params =
     (let p = parsingPath s (drop 1 params);
          s1 = sendCodeLine env 150 ''Data transfer starting.'' s;
          opened = os_OpenFile env (trace s1) p;
          s2 = (case opened of
                  Some err \<Rightarrow> sendStatusText env 450 (log [OpenedFile p] s1)
                | None \<Rightarrow> log [OpenedFile p] s1)
      in case (case dataConn s2 of
                 Some pc \<Rightarrow> Return (io_Copy env (trace s2) p pc)
               | None \<Rightarrow>
                   if opened \<noteq> None \<and> file_ReadFrom env then Return 0
                   else Panic NilPointerDereference) of
           Panic q \<Rightarrow> Panic q
         | Return n \<Rightarrow>
             (let s3 = log [Copied p (dataConn s2)] s2 in
              if 0 \<le> n
              then Return (sendCodeLine env 226
                             (''OK, received '' @ strconv_Itoa n @ '' bytes.'') s3)
              else Return (sendStatusText env 550 s3)))"

definition serve_TYPE :: "SEnv \<Rightarrow> ServerConn \<Rightarrow> string list \<Rightarrow> ServerConn result" where
  "serve_TYPE env s params =
     (case index params 1 of
        Panic p \<Rightarrow> Panic p
      | Return a \<Rightarrow>
          (let param = strings_ToUpper a in
           if param = ''A'' then Return (sendCodeLine env StatusCommandOK ''Type set to ASCII.'' s)
           else if param = ''I''
           then Return (sendCodeLine env StatusCommandOK ''Type set to binary.'' s)
           else Return (sendCodeLine env StatusBadArguments ''Invalid type.'' s)))"

text \<open>
  One turn of the loop of \<open>Serve\<close> on a command line that was read without error: the
  session after it, and whether the loop is left.
\<close>

definition continue :: "ServerConn result \<Rightarrow> (ServerConn \<times> bool) result" where
  "continue r = (case r of Panic p \<Rightarrow> Panic p | Return s \<Rightarrow> Return (s, False))"

definition command_of :: "string \<Rightarrow> string list" where
  "command_of cmdLine = strings_Split (strings_TrimSpace cmdLine) (CHR '' '')"

definition Serve_command :: "SEnv \<Rightarrow> ServerConn \<Rightarrow> string \<Rightarrow> (ServerConn \<times> bool) result" where
  "Serve_command env s cmdLine =
     (let params = command_of cmdLine;
          c = strings_ToUpper (hd params)
      in if c = USER then continue (Return (sendStatusText env StatusUserOK s))
         else if c = PASS then continue (Return (sendStatusText env StatusLoggedIn s))
         else if c = PWD then
           continue (Return (sendCodeLine env StatusPathCreated
                               ([CHR 0x22] @ prefix s @ [CHR 0x22] @ '' is current directory.'') s))
         else if c = CWD then continue (serve_CWD env s params)
         else if c = DELE then continue (Return (serve_DELE env s params))
         else if c = EPSV then continue (serve_EPSV env s)
         else if c = SIZE then continue (serve_SIZE env s params)
         else if c = LIST then continue (Return (serve_LIST env s))
         else if c = MKD then continue (Return (serve_MKD env s params))
         else if c = NOOP then continue (Return (sendStatusText env StatusCommandOK s))
         else if c = PASV then continue (serve_PASV env s)
         else if c = QUIT then Return (Close s, True)
         else if c = RETR then continue (Return (serve_RETR env s params))
         else if c = RMD \<or> c = XRMD then continue (serve_RMD env s params)
         else if c = RNFR then continue (Return (serve_RNFR env s params))
         else if c = RNTO then continue (Return (serve_RNTO env s params))
         else if c = SYST then continue (Return (sendStatusText env StatusName s))
         else if c = STOR then continue (serve_STOR env s params)
         else if c = TYPE_cmd then continue (serve_TYPE env s params)
         else continue (Return (sendStatusText env StatusCommandNotImplemented s)))"

text \<open>
  The loop of \<open>Serve\<close> over what the reader returns: each read gives the line and the
  error. \<open>io.EOF\<close> ends the loop; any other error closes the connection and ends it. A
  reader with nothing more to give is at the end of its input.
\<close>

definition io_EOF :: error where
  "io_EOF = Error ''EOF''"

fun Serve_loop :: "SEnv \<Rightarrow> ServerConn \<Rightarrow> (string \<times> error option) list \<Rightarrow> ServerConn result" where
  "Serve_loop env s [] = Return s"
| "Serve_loop env s ((cmdLine, Some err) # reads) =
     (if err = io_EOF then Return s else Return (Close s))"
| "Serve_loop env s ((cmdLine, None) # reads) =
     (case Serve_command env s cmdLine of
        Panic p \<Rightarrow> Panic p
      | Return (s', stop) \<Rightarrow> if stop then Return s' else Serve_loop env s' reads)"

definition Serve :: "SEnv \<Rightarrow> ServerConn \<Rightarrow> (string \<times> error option) list \<Rightarrow> ServerConn result" where
  "Serve env s reads = Serve_loop env (sendStatusText env StatusReady s) reads"

text \<open>What a session has handed to its control writer, reply by reply.\<close>

fun replies :: "sevent list \<Rightarrow> string list" where
  "replies [] = []"
| "replies (Wrote m # es) = m # replies es"
| "replies (WriteFailed m # es) = m # replies es"
| "replies (e # es) = replies es"

text \<open>
  An environment for the examples: every write succeeds, the working directory holds the
  file \<open>notes.txt\<close> of five bytes and nothing else, and every listener gets the address
  \<open>192.168.1.5:50021\<close>.
\<close>

definition notes_txt :: FileInfo where
  "notes_txt =
     \<lparr>fi_Name = ''notes.txt'', fi_Size = 5, fi_Mode = 0x1A4,
      fi_ModTime = \<lparr>year = 2024, month = 2, day = 29, hour = 12, minute = 30, second = 7\<rparr>\<rparr>"

definition example_env :: SEnv where
  "example_env =
     \<lparr>Message = (\<lambda>code. ''status''),
      writer_WriteString = (\<lambda>tr m. None),
      os_Stat = (\<lambda>tr p. if p = ''notes.txt'' then Inr notes_txt
                         else Inl (Error ''no such file or directory'')),
      os_Mkdir = (\<lambda>tr p. None),
      os_Rename = (\<lambda>tr a b. if a = ''notes.txt'' then None
                             else Some (Error ''no such file or directory'')),
      os_RemoveAll = (\<lambda>tr p. None),
      os_OpenFile = (\<lambda>tr p. None),
      ioutil_ReadFile = (\<lambda>tr p. if p = ''notes.txt'' then Inr ''hello''
                                 else Inl (Error ''no such file or directory'')),
      file_Readdir = (\<lambda>tr p. [notes_txt]),
      net_ListenTCP = (\<lambda>tr a. Inr ''192.168.1.5:50021''),
      dataConn_Write = (\<lambda>tr pc data. int (length data)),
      io_Copy = (\<lambda>tr p pc. 5),
      file_ReadFrom = True\<rparr>"

definition new_session :: ServerConn where
  "new_session = \<lparr>dataConn = None, prefix = ''.'', host = ''192.168.1.5'', rn = [], trace = []\<rparr>"

text \<open>The listener of the examples, and the session after \<open>PASV\<close> has set it.\<close>

definition listener :: PassiveConn where
  "listener = \<lparr>pc_host = ''192.168.1.5'', pc_port = ''50021''\<rparr>"

definition after_pasv :: ServerConn where
  "after_pasv =
     \<lparr>dataConn = Some listener, prefix = ''.'', host = ''192.168.1.5'', rn = [],
      trace = [Listened ''192.168.1.5:0'',
               Wrote (''227 Entering Passive Mode (127,0,0,1,195,101)'' @ CRLF)]\<rparr>"

text \<open>What holds of the session a run ends in; \<open>None\<close> when the run panics.\<close>

definition after :: "(ServerConn \<Rightarrow> 'a) \<Rightarrow> ServerConn result \<Rightarrow> 'a option" where
  "after f r = (case r of Panic p \<Rightarrow> None | Return s \<Rightarrow> Some (f s))"

section \<open>Facts for evaluation\<close>

lemma replicate_numeral_unfold: "replicate (numeral k) x = x # replicate (pred_numeral k) x"
  by (simp add: numeral_eq_Suc)

lemma Itoa_0: "strconv_Itoa 0 = ''0''"
  by (simp add: strconv_Itoa_def digits.simps digit_char_def)

lemma Itoa_227: "strconv_Itoa 227 = ''227''"
  by (simp add: strconv_Itoa_def digits.simps digit_char_def)

lemma replies_append: "replies (xs @ ys) = replies xs @ replies ys"
  by (induction xs rule: replies.induct) auto

lemma split_from_not_Nil: "split_from sep w s \<noteq> []"
  by (induction s arbitrary: w) auto

lemma command_of_not_Nil: "command_of cmdLine \<noteq> []"
  by (simp add: command_of_def strings_Split_def split_from_not_Nil)

lemmas command_names = USER_def PASS_def PWD_def CWD_def DELE_def EPSV_def SIZE_def LIST_def
  MKD_def NOOP_def PASV_def QUIT_def RETR_def RMD_def XRMD_def RNFR_def RNTO_def SYST_def
  STOR_def TYPE_cmd_def

lemmas eval_line = command_of_def strings_TrimSpace_def isSpace_def strings_Split_def
  strings_ToUpper_def toUpper_def CRLF_def CR_def LF_def

lemmas eval_path = parsingPath_def strings_HasPrefix_def path_Join_def path_Clean_def
  clean_step_def

lemmas eval_send = sendStatusText_def sendCodeLine_def ServerConn_cmd_def log_def Close_def
  strconv_Itoa_def digits.simps digit_char_def

lemmas eval_pasv = serve_PASV_def NewPassiveConn_def index_def PassiveConn_Port_def
  PassiveConn_Host_def strings_ReplaceAll_def quo_def strconv_Atoi_def isDigit_def decimal_def
  digit_val_def

lemmas eval_pasv_parse = pasv_parse_def slice_def index_def strings_Split_def strconv_Atoi_def
  isDigit_def decimal_def digit_val_def int64_def

lemmas eval_parse = parseListLine_def strings_Fields_def isSpace_def index_def entry_type_def
  strconv_ParseUint_def isDigit_def timeStr_def strings_Contains_def slice_def decimal_def
  digit_val_def

lemmas eval_time = time_Parse_def getnum_def skip1_def lookup_def shortMonthNames_def match_def
  match_byte_def or32_def stdYear_def time_atoi_def daysIn_def isLeap_def

lemmas eval_format = ListDetailed_def detailed_line_def info_of_def mode_of_def
  FileMode_String_def mode_letters_def mode_rwx_def pad8_def strconv_Itoa_def digits.simps
  digit_char_def time_Format_def shortMonthNames_def zero2_def
  bit_take_bit_iff bit_or_iff bit_exp_iff upt_rec TAB_def CRLF_def CR_def LF_def

section \<open>The server: change of directory\<close>

lemma Serve_command_CWD:
  "strings_ToUpper (hd (command_of cmdLine)) = CWD \<Longrightarrow>
   Serve_command env s cmdLine = continue (serve_CWD env s (command_of cmdLine))"
  by (simp add: Serve_command_def command_names)

text \<open>
  A \<open>CWD\<close> to a path that \<open>os.Stat\<close> does not find panics: the handler calls \<open>IsDir\<close> on the
  nil \<open>FileInfo\<close>. No reply is written and the session does not go on.
\<close>

lemma serve_CWD_missing:
  "os_Stat env (trace s) (parsingPath s (drop 1 params)) = Inl err \<Longrightarrow>
   serve_CWD env s params = Panic NilPointerDereference"
  by (simp add: serve_CWD_def)

text \<open>
  A \<open>CWD\<close> to a path that exists and is not a directory leaves the working path as it
  was and hands the file-unavailable reply to the control writer.
\<close>

lemma serve_CWD_not_dir:
  assumes "os_Stat env (trace s) (parsingPath s (drop 1 params)) = Inr f" and "\<not> IsDir f"
  shows "\<exists>s'. serve_CWD env s params = Return s' \<and> prefix s' = prefix s \<and>
           replies (trace s') = replies (trace s) @
             [strconv_Itoa StatusFileUnavailable @ '' '' @ Message env StatusFileUnavailable @ CRLF]"
  using assms
  by (auto simp: serve_CWD_def sendStatusText_def sendCodeLine_def ServerConn_cmd_def log_def
      Close_def replies_append Let_def split: option.splits)

text \<open>
  C1. The claim fails on the code for a path that does not exist: in a new session whose
  working directory holds only \<open>notes.txt\<close>, the command \<open>CWD nosuchdir\<close> ends in a nil
  pointer dereference instead of the file-unavailable reply.
\<close>

theorem C1_cwd_missing_path_panics:
  "Serve_command example_env new_session (''CWD nosuchdir'' @ CRLF) = Panic NilPointerDereference"
  by (simp add: Serve_command_def command_names eval_line serve_CWD_def eval_path
      example_env_def new_session_def continue_def)

section \<open>The server: the passive reply\<close>

lemma pasv_step:
  "Serve_command example_env new_session (''PASV'' @ CRLF) = Return (after_pasv, False)"
  by (simp add: Serve_command_def command_names eval_line eval_pasv eval_send
      example_env_def new_session_def continue_def listener_def after_pasv_def)

text \<open>
  C10. \<open>Host\<close> of a \<open>PassiveConn\<close> is the constant \<open>127.0.0.1\<close>, whatever host the listener
  was bound to. So whenever \<open>PASV\<close> gets its listener, the reply handed to the control
  writer is \<open>227 Entering Passive Mode (127,0,0,1,x,y)\<close>, with \<open>x\<close> and \<open>y\<close> the quotient and
  the remainder of the port by 256, for every host of the session and of the listener.
\<close>

theorem C10_pasv_reply_advertises_loopback:
  "strings_ToUpper (hd (command_of cmdLine)) = PASV \<Longrightarrow>
   NewPassiveConn env (host s) (trace s) = Return (Inr pc) \<Longrightarrow>
   PassiveConn_Host pc = ''127.0.0.1'' \<and>
   (\<exists>s'. Serve_command env s cmdLine = Return (s', False) \<and>
      replies (trace s') = replies (trace s) @
        [''227 Entering Passive Mode (127,0,0,1,''
           @ strconv_Itoa (quo (PassiveConn_Port pc) 256) @ '',''
           @ strconv_Itoa (PassiveConn_Port pc - quo (PassiveConn_Port pc) 256 * 256)
           @ '')'' @ CRLF])"
  by (auto simp: Serve_command_def command_names continue_def serve_PASV_def PassiveConn_Host_def
      strings_ReplaceAll_def sendCodeLine_def ServerConn_cmd_def Close_def log_def Let_def
      replies_append Itoa_227 split: option.splits)

theorem C10_witness:
  "strings_ToUpper (hd (command_of (''pasv'' @ CRLF))) = PASV \<and>
   NewPassiveConn example_env (host new_session) (trace new_session) = Return (Inr listener) \<and>
   PassiveConn_Host listener = ''127.0.0.1'' \<and>
   (\<exists>s'. Serve_command example_env new_session (''pasv'' @ CRLF) = Return (s', False) \<and>
      replies (trace s') = [''227 Entering Passive Mode (127,0,0,1,195,101)'' @ CRLF])"
proof -
  have c: "strings_ToUpper (hd (command_of (''pasv'' @ CRLF))) = PASV"
    by (simp add: eval_line PASV_def)
  have l: "NewPassiveConn example_env (host new_session) (trace new_session)
             = Return (Inr listener)"
    by (simp add: NewPassiveConn_def example_env_def new_session_def listener_def index_def
        strings_Split_def)
  have p: "PassiveConn_Port listener = 50021"
    by (simp add: PassiveConn_Port_def listener_def strconv_Atoi_def isDigit_def decimal_def
        digit_val_def)
  have t: "replies (trace new_session) = []"
    by (simp add: new_session_def)
  show ?thesis
    using C10_pasv_reply_advertises_loopback [OF c l] c l
    by (simp add: p t quo_def strconv_Itoa_def digits.simps digit_char_def)
qed

section \<open>The server: the data channel of a session\<close>

text \<open>
  \<open>sendData\<close> writes to the data connection and closes it, and leaves the field
  \<open>dataConn\<close> as it was: shown where the control writer does not fail.
\<close>

lemma sendData_open:
  "dataConn s = Some pc \<Longrightarrow> writer_WriteString env = (\<lambda>tr m. None) \<Longrightarrow>
   dataConn (sendData env data s) = Some pc \<and> DataClosed pc \<in> set (trace (sendData env data s))"
  by (simp add: sendData_def sendCodeLine_def ServerConn_cmd_def log_def Let_def)

lemma list_step:
  "\<exists>s. Serve_command example_env after_pasv (''LIST'' @ CRLF) = Return (s, False) \<and>
       dataConn s = Some listener \<and> DataClosed listener \<in> set (trace s)"
proof -
  have w: "writer_WriteString example_env = (\<lambda>tr m. None)"
    by (simp add: example_env_def)
  have c: "Serve_command example_env after_pasv (''LIST'' @ CRLF)
             = Return (serve_LIST example_env after_pasv, False)"
    by (simp add: Serve_command_def command_names eval_line continue_def)
  have d: "dataConn (log [Readdir (prefix after_pasv)] (sendCodeLine example_env StatusAboutToSend
                 ''Opening ASCII mode data connection for file list'' after_pasv)) = Some listener"
    by (simp add: sendCodeLine_def ServerConn_cmd_def w log_def after_pasv_def)
  show ?thesis
    using sendData_open [OF d w] c
    by (simp add: serve_LIST_def Let_def sendCodeLine_def ServerConn_cmd_def w log_def)
qed

lemma stor_step:
  "\<exists>s. Serve_command example_env after_pasv (''STOR upload.bin'' @ CRLF) = Return (s, False) \<and>
       dataConn s = Some listener \<and> DataClosed listener \<notin> set (trace s)"
  by (simp add: Serve_command_def command_names eval_line serve_STOR_def eval_send
      eval_path example_env_def continue_def after_pasv_def Let_def)

text \<open>
  C5. The claim fails on the code. After \<open>PASV\<close> and \<open>LIST\<close> the data connection has been
  closed, and the field still holds it; after \<open>PASV\<close> and \<open>STOR\<close> the field still holds it
  and the session has not closed it.
\<close>

theorem C5_data_channel_not_cleared:
  "after dataConn (Serve_loop example_env new_session
       [(''PASV'' @ CRLF, None), (''LIST'' @ CRLF, None)]) = Some (Some listener) \<and>
   after (\<lambda>s. DataClosed listener \<in> set (trace s)) (Serve_loop example_env new_session
       [(''PASV'' @ CRLF, None), (''LIST'' @ CRLF, None)]) = Some True \<and>
   after dataConn (Serve_loop example_env new_session
       [(''PASV'' @ CRLF, None), (''STOR upload.bin'' @ CRLF, None)]) = Some (Some listener) \<and>
   after (\<lambda>s. DataClosed listener \<in> set (trace s)) (Serve_loop example_env new_session
       [(''PASV'' @ CRLF, None), (''STOR upload.bin'' @ CRLF, None)]) = Some False"
proof -
  obtain s1 where s1: "Serve_command example_env after_pasv (''LIST'' @ CRLF) = Return (s1, False)"
    and d1: "dataConn s1 = Some listener" and c1: "DataClosed listener \<in> set (trace s1)"
    using list_step by blast
  obtain s2 where s2:
    "Serve_command example_env after_pasv (''STOR upload.bin'' @ CRLF) = Return (s2, False)"
    and d2: "dataConn s2 = Some listener" and c2: "DataClosed listener \<notin> set (trace s2)"
    using stor_step by blast
  have l1: "Serve_loop example_env new_session
       [(''PASV'' @ CRLF, None), (''LIST'' @ CRLF, None)] = Return s1"
    by (simp only: Serve_loop.simps pasv_step s1 result.case prod.case if_False)
  have l2: "Serve_loop example_env new_session
       [(''PASV'' @ CRLF, None), (''STOR upload.bin'' @ CRLF, None)] = Return s2"
    by (simp only: Serve_loop.simps pasv_step s2 result.case prod.case if_False)
  show ?thesis
    by (simp only: l1 l2 after_def result.case d1 d2 c1 c2 simp_thms)
qed

section \<open>The server: renaming\<close>






























section \<open>The client: connecting\<close>

lemma quit_and_fail_result:
  "quit_and_fail env c err tr = Return ((None, Some err), tr @ [Sent ''QUIT'', ClosedControl])"
  by (simp add: quit_and_fail_def Quit_def)

text \<open>\<open>DialTimeout\<close> never panics, and with an error it returns the nil pointer.\<close>

lemma DialTimeout_returns: "\<exists>r. DialTimeout env addr timeout tr = Return r"
  by (auto simp: DialTimeout_def quit_and_fail_result Let_def
      split: sum.splits prod.splits option.splits)

lemma DialTimeout_error_nil:
  "DialTimeout env addr timeout tr = Return ((c, Some err), tr') \<Longrightarrow> c = None"
  by (auto simp: DialTimeout_def quit_and_fail_result Let_def
      split: sum.splits prod.splits option.splits)

text \<open>
  C8. Whenever \<open>Dial\<close> fails, for any reason and at any address, the pointer it returns is
  nil and \<open>Connect\<close> calls \<open>Quit\<close> on it: \<open>Connect\<close> ends in a nil pointer dereference, and
  the error is not returned.
\<close>

theorem C8_connect_dereferences_nil:
  "Dial env addr tr = Return ((c, Some err), tr') \<Longrightarrow>
   c = None \<and> Connect env addr user password tr = Panic NilPointerDereference"
  using DialTimeout_error_nil [of env addr 0 tr c err tr']
  by (simp add: Connect_def Dial_def Quit_def)

theorem C8_witness:
  "Dial unreachable ''localhost:2121'' [] =
     Return ((None, Some (Error ''no route to host'')), [Dialed ''localhost:2121'']) \<and>
   Connect unreachable ''localhost:2121'' ''up'' ''up'' [] = Panic NilPointerDereference"
  using C8_connect_dereferences_nil [of unreachable "''localhost:2121''" "[]" None
      "Error ''no route to host''" "[Dialed ''localhost:2121'']" "''up''" "''up''"]
  by (simp add: Dial_def DialTimeout_def unreachable_def)

section \<open>The client: the data connection\<close>

lemma pasv_parse_error: "pasv_parse line = Return (p, Some e) \<Longrightarrow> p = 0"
  by (auto simp: pasv_parse_def Let_def split: result.splits if_splits)

lemma pasv_error: "pasv env tr = Return ((p, Some e), tr') \<Longrightarrow> p = 0"
  by (auto simp: pasv_def dest: pasv_parse_error split: prod.splits option.splits result.splits)

text \<open>
  When \<open>epsv\<close> and then \<open>pasv\<close> return an error, \<open>openDataConn\<close> dials the port 0 of the
  host, and what it returns is what this dial returns.
\<close>

lemma openDataConn_both_fail:
  assumes "epsv env tr = Return ((p1, Some e1), tr1)"
    and "pasv env tr1 = Return ((p2, Some e2), tr2)"
  shows "openDataConn env c tr = Return (dial_data env c 0 tr2) \<and>
         snd (dial_data env c 0 tr2) = tr2 @ [Dialed (net_JoinHostPort (cc_host c) ''0'')]"
proof -
  have "p2 = 0"
    using assms(2) by (rule pasv_error)
  then show ?thesis
    using assms by (simp add: openDataConn_def dial_data_def Itoa_0 Let_def split: sum.splits)
qed

text \<open>
  C2. The order of the attempts is as claimed, and the rest of the claim fails on the
  code. Against a server that answers 500 to \<open>EPSV\<close> and to \<open>PASV\<close>, \<open>openDataConn\<close> sends
  both commands and then dials \<open>10.0.0.7:0\<close>; the error it returns is the one of this
  dial, not one of the negotiation.
\<close>

theorem C2_dial_after_failed_negotiation:
  "openDataConn refusing_server
     \<lparr>cc_host = ''10.0.0.7'', cc_timeout = 0, cc_features = Map.empty\<rparr> [] =
   Return (Inl (Error ''connection refused''),
           [Sent ''EPSV'', ReadReply, Sent ''PASV'', ReadReply, Dialed ''10.0.0.7:0''])"
  by (simp add: openDataConn_def epsv_def pasv_def ClientConn_cmd_def ReadResponse_def
      code_mismatch_def StatusExtendedPassiveMode_def StatusPassiveMode_def dial_data_def
      net_JoinHostPort_def refusing_server_def strconv_Itoa_def digits.simps digit_char_def)

text \<open>
  C4. The reply of the specification decodes to 65203, from the last two numbers only,
  and a reply without parentheses is a format error. The rest of the claim fails on the
  code: with one number between the parentheses the parser panics on \<open>lst[n-2]\<close>, and
  with the parentheses in the wrong order it panics on the slice; with two numbers it
  returns a port.
\<close>

theorem C4_pasv_reply_parsing:
  "pasv_parse ''Entering Passive Mode (172,17,66,241,254,179)'' = Return (65203, None) \<and>
   pasv_parse ''Entering Passive Mode 172,17,66,241,254,179'' =
     Return (0, Some (Error ''invalid PASV response format'')) \<and>
   pasv_parse ''Entering Passive Mode (179)'' = Panic IndexOutOfRange \<and>
   pasv_parse ''Entering Passive Mode (254,179)'' = Return (65203, None) \<and>
   pasv_parse ''Entering Passive Mode )172,17,66,241,254,179('' = Panic SliceBoundsOutOfRange"
  by (simp add: eval_pasv_parse)

section \<open>The listing codec\<close>

subsection \<open>Fields\<close>

lemma token_nonempty: "token w \<Longrightarrow> w \<noteq> []"
  by (simp add: token_def)

lemma fields_from_nospace:
  "list_all (\<lambda>c. \<not> isSpace c) a \<Longrightarrow> fields_from w (a @ r) = fields_from (w @ a) r"
  by (induction a arbitrary: w) auto

lemma fields_from_token:
  "token a \<Longrightarrow> isSpace c \<Longrightarrow> fields_from [] (a @ c # r) = a # fields_from [] r"
  by (simp add: fields_from_nospace token_def)

lemma fields_from_token_end:
  "token a \<Longrightarrow> fields_from [] a = [a]"
  using fields_from_nospace [of a "[]" "[]"] by (simp add: token_def)

lemma fields_from_tokens:
  "list_all (\<lambda>c. \<not> isSpace c) w \<Longrightarrow> list_all token (fields_from w s)"
  by (induction s arbitrary: w) (auto simp: token_def)

lemma Fields_tokens: "list_all token (strings_Fields s)"
  by (simp add: strings_Fields_def fields_from_tokens)

lemma fields_from_Join:
  "list_all token fs \<Longrightarrow> isSpace c \<Longrightarrow>
   fields_from [] (strings_Join fs '' '' @ c # r) = fs @ fields_from [] r"
proof (induction fs "'' ''" rule: strings_Join.induct)
  case 1
  then show ?case by simp
next
  case (2 x)
  then show ?case by (simp add: fields_from_token)
next
  case (3 x y ys)
  have "strings_Join (x # y # ys) '' '' @ c # r = x @ CHR '' '' # (strings_Join (y # ys) '' '' @ c # r)"
    by simp
  moreover have "isSpace (CHR '' '')" by (simp add: isSpace_def)
  ultimately show ?case
    using 3 by (simp add: fields_from_token del: strings_Join.simps)
qed

subsection \<open>Decimal numbers\<close>

lemma digit_char_cases:
  "d < 10 \<Longrightarrow> d = 0 \<or> d = 1 \<or> d = 2 \<or> d = 3 \<or> d = 4 \<or> d = 5 \<or> d = 6 \<or> d = 7 \<or> d = 8 \<or> d = (9::nat)"
  by arith

lemma digit_char_props:
  "d < 10 \<Longrightarrow> isDigit (digit_char d) \<and> digit_val (digit_char d) = d \<and>
     \<not> isSpace (digit_char d) \<and> digit_char d \<noteq> CHR '' '' \<and> digit_char d \<noteq> CHR '':''
     \<and> digit_char d \<noteq> CHR ''-'' \<and> digit_char d \<noteq> CHR ''+''"
  by (drule digit_char_cases) (auto simp: digit_char_def isDigit_def digit_val_def isSpace_def)

lemma digits_lt_10: "n < 10 \<Longrightarrow> digits n = [digit_char n]"
  by (simp add: digits.simps)

lemma digits_lt_100:
  "10 \<le> n \<Longrightarrow> n < 100 \<Longrightarrow> digits n = [digit_char (n div 10), digit_char (n mod 10)]"
  by (subst digits.simps) (simp add: digits_lt_10)

lemma digits_4:
  "1000 \<le> n \<Longrightarrow> n < 10000 \<Longrightarrow>
   digits n = [digit_char (n div 1000), digit_char (n div 100 mod 10),
               digit_char (n div 10 mod 10), digit_char (n mod 10)]"
proof -
  assume a: "1000 \<le> n" "n < 10000"
  have 1: "digits n = digits (n div 10) @ [digit_char (n mod 10)]"
    using a by (subst digits.simps) simp
  have b: "\<not> n div 10 < 10" "n div 10 div 10 = n div 100" "10 \<le> n div 100" "n div 100 < 100"
    "n div 100 div 10 = n div 1000"
    using a by arith+
  have 2: "digits (n div 10) = digits (n div 100) @ [digit_char (n div 10 mod 10)]"
    by (subst digits.simps) (simp add: b)
  have 3: "digits (n div 100) = [digit_char (n div 1000), digit_char (n div 100 mod 10)]"
    using digits_lt_100 [of "n div 100"] by (simp add: b)
  show ?thesis by (simp add: 1 2 3)
qed

lemma digits_not_Nil: "digits n \<noteq> []"
  by (subst digits.simps) simp

lemma digits_all_digit: "list_all isDigit (digits n)"
proof (induction n rule: digits.induct)
  case (1 n)
  show ?case
  proof (cases "n < 10")
    case True
    then show ?thesis by (simp add: digits_lt_10 digit_char_props)
  next
    case False
    then have "digits n = digits (n div 10) @ [digit_char (n mod 10)]"
      by (subst digits.simps) simp
    with 1 False show ?thesis by (simp add: digit_char_props)
  qed
qed

lemma decimal_from_snoc:
  "decimal_from acc (xs @ [c]) = decimal_from acc xs * 10 + digit_val c"
  by (induction xs arbitrary: acc) auto

lemma decimal_digits: "decimal (digits n) = n"
proof (induction n rule: digits.induct)
  case (1 n)
  show ?case
  proof (cases "n < 10")
    case True
    then show ?thesis by (simp add: digits_lt_10 decimal_def digit_char_props)
  next
    case False
    then have "digits n = digits (n div 10) @ [digit_char (n mod 10)]"
      by (subst digits.simps) simp
    with 1 False show ?thesis
      by (simp add: decimal_def decimal_from_snoc digit_char_props)
  qed
qed

lemma isDigit_not_space: "isDigit c \<Longrightarrow> \<not> isSpace c"
  by (auto simp: isDigit_def isSpace_def)

lemma token_digits: "token (digits n)"
  using digits_all_digit [of n]
  by (auto simp: token_def digits_not_Nil list_all_iff isDigit_not_space)

lemma ParseUint_digits:
  "n < 2 ^ 64 \<Longrightarrow> strconv_ParseUint (digits n) = (of_nat n, None)"
  by (simp add: strconv_ParseUint_def digits_not_Nil digits_all_digit decimal_digits)

subsection \<open>The time of a line\<close>

lemma lookup_from_bound:
  "lookup_from i tab v = Some (m, r) \<Longrightarrow> i \<le> m \<and> m < i + length tab"
proof (induction tab arbitrary: i)
  case Nil
  then show ?case by simp
next
  case (Cons a tab)
  show ?case
  proof (cases "length a \<le> length v \<and> match (take (length a) v) a")
    case True
    with Cons.prems show ?thesis by simp
  next
    case False
    with Cons.prems have "lookup_from (Suc i) tab v = Some (m, r)" by simp
    from Cons.IH [OF this] show ?thesis by simp
  qed
qed

lemma lookup_month_bound: "lookup shortMonthNames v = Some (m, r) \<Longrightarrow> m < 12"
  using lookup_from_bound [of 0 shortMonthNames v m r]
  by (simp add: lookup_def shortMonthNames_def)

lemma time_Parse_valid:
  assumes "time_Parse v = Inr t"
  shows "second t = 0 \<and> 1 \<le> month t \<and> month t \<le> 12 \<and> 1 \<le> day t \<and>
         day t \<le> daysIn (month t) (year t) \<and> hour t < 24 \<and> minute t < 60"
  using assms
  apply (simp add: time_Parse_def split: option.splits)
  apply (auto simp: bind_eq_Some_conv split: if_splits dest: lookup_month_bound)
  done

lemma month_cases:
  "k < 12 \<Longrightarrow> k = 0 \<or> k = 1 \<or> k = 2 \<or> k = 3 \<or> k = 4 \<or> k = 5 \<or> k = 6 \<or> k = 7 \<or> k = 8 \<or>
     k = 9 \<or> k = 10 \<or> k = (11::nat)"
  by arith

lemma lookup_month:
  "k < 12 \<Longrightarrow> lookup shortMonthNames (shortMonthNames ! k @ r) = Some (k, r)"
  by (drule month_cases, elim disjE)
     (simp_all add: lookup_def shortMonthNames_def match_def match_byte_def or32_def)

lemma month_token: "k < 12 \<Longrightarrow> token (shortMonthNames ! k)"
  by (drule month_cases, elim disjE) (simp_all add: shortMonthNames_def token_def isSpace_def)

lemma month_no_blank:
  "k < 12 \<Longrightarrow> dropWhile (\<lambda>c. c = CHR '' '') (shortMonthNames ! k @ r) = shortMonthNames ! k @ r"
  by (drule month_cases, elim disjE) (simp_all add: shortMonthNames_def)

lemma daysIn_le_31: "1 \<le> m \<Longrightarrow> m \<le> 12 \<Longrightarrow> daysIn m y \<le> 31"
proof -
  assume "1 \<le> m" "m \<le> 12"
  then have "m - 1 < 12" by arith
  from month_cases [OF this] have "m = 1 \<or> m = 2 \<or> m = 3 \<or> m = 4 \<or> m = 5 \<or> m = 6 \<or> m = 7 \<or>
      m = 8 \<or> m = 9 \<or> m = 10 \<or> m = 11 \<or> m = 12"
    using \<open>1 \<le> m\<close> by arith
  then show ?thesis
    by (elim disjE) (simp_all add: daysIn_def)
qed

lemma getnum_digits:
  assumes "d < 100" and "\<not> isDigit c"
  shows "getnum (digits d @ c # r) False = Some (d, c # r)"
proof (cases "d < 10")
  case True
  then show ?thesis
    using assms by (simp add: digits_lt_10 getnum_def digit_char_props)
next
  case False
  then have "digits d = [digit_char (d div 10), digit_char (d mod 10)]"
    using assms by (simp add: digits_lt_100)
  then show ?thesis
    using assms by (simp add: getnum_def digit_char_props)
qed

lemma zero2_eq:
  "n < 100 \<Longrightarrow> zero2 n = [digit_char (n div 10), digit_char (n mod 10)]"
  by (cases "n < 10") (simp_all add: zero2_def digits_lt_10 digits_lt_100 digit_char_def)

lemma getnum_zero2:
  "n < 100 \<Longrightarrow> getnum (zero2 n @ r) fixed = Some (n, r)"
  by (simp add: zero2_eq getnum_def digit_char_props)



lemma year_slice:
  assumes "1969 \<le> y" and "y \<le> 2068"
  shows "slice (strconv_Itoa y) 2 4 =
           Return [digit_char (nat y div 10 mod 10), digit_char (nat y mod 10)]"
proof -
  have "1000 \<le> nat y" "nat y < 10000"
    using assms by arith+
  from digits_4 [OF this] show ?thesis
    using assms by (simp add: strconv_Itoa_def slice_def)
qed

lemma two_digits_mod: "(n::nat) div 10 mod 10 * 10 + n mod 10 = n mod 100"
  using mod_mult2_eq [of n 10 10] by simp

lemma mod_100_before_2000: "1969 \<le> (n::nat) \<Longrightarrow> n < 2000 \<Longrightarrow> n mod 100 = n - 1900"
  using mod_less [of "n - 1900" 100] mod_mult_self1 [of "n - 1900" 19 100] by simp

lemma mod_100_from_2000: "2000 \<le> (n::nat) \<Longrightarrow> n \<le> 2068 \<Longrightarrow> n mod 100 = n - 2000"
  using mod_less [of "n - 2000" 100] mod_mult_self1 [of "n - 2000" 20 100] by simp

lemma stdYear_two:
  assumes "1969 \<le> y" and "y \<le> 2068"
  shows "stdYear ([digit_char (nat y div 10 mod 10), digit_char (nat y mod 10)] @ r) = Some (y, r)"
proof -
  let ?a = "nat y div 10 mod 10" and ?b = "nat y mod 10"
  define yy where "yy = int (?a * 10 + ?b)"
  have ab: "?a < 10" "?b < 10"
    by arith+
  have atoi: "time_atoi [digit_char ?a, digit_char ?b] = Some yy"
    using ab by (simp add: time_atoi_def digit_char_props decimal_def yy_def)
  have window: "(if 69 \<le> yy then yy + 1900 else yy + 2000) = y"
  proof (cases "y < 2000")
    case True
    then have "nat y mod 100 = nat y - 1900"
      using assms by (intro mod_100_before_2000) simp_all
    then show ?thesis
      using True assms by (simp add: two_digits_mod yy_def)
  next
    case False
    then have "nat y mod 100 = nat y - 2000"
      using assms by (intro mod_100_from_2000) simp_all
    then show ?thesis
      using False assms by (simp add: two_digits_mod yy_def)
  qed
  show ?thesis
    by (simp add: stdYear_def atoi window)
qed

lemma hd_digits: "isDigit (hd (digits d))"
  using digits_all_digit [of d] digits_not_Nil [of d]
  by (cases "digits d") simp_all

lemma not_digit_blank: "\<not> isDigit (CHR '' '')" "\<not> isDigit (CHR '':'')"
  by (simp_all add: isDigit_def)

lemma time_Parse_formatted:
  assumes "1 \<le> d" and "d \<le> daysIn (Suc k) y" and "k < 12" and "h < 24" and "mi < 60"
    and "1969 \<le> y" and "y \<le> 2068"
  shows "time_Parse (digits d @ '' '' @ shortMonthNames ! k @ '' ''
           @ [digit_char (nat y div 10 mod 10), digit_char (nat y mod 10)] @ '' ''
           @ (zero2 h @ '':'' @ zero2 mi) @ '' GMT'')
         = Inr \<lparr>year = y, month = Suc k, day = d, hour = h, minute = mi, second = 0\<rparr>"
proof -
  let ?yy = "[digit_char (nat y div 10 mod 10), digit_char (nat y mod 10)]"
  let ?v5 = "'' '' @ zero2 h @ '':'' @ zero2 mi @ '' GMT''"
  let ?v3 = "'' '' @ ?yy @ ?v5"
  let ?v1 = "'' '' @ shortMonthNames ! k @ ?v3"
  have d100: "d < 100"
    using daysIn_le_31 [of "Suc k" y] assms by simp
  have h100: "h < 100" "mi < 100"
    using assms by simp_all
  have start: "hd (digits d @ ?v1) \<noteq> CHR '' ''"
    using hd_digits [of d] digits_not_Nil [of d] not_digit_blank by (cases "digits d") auto
  have s1: "getnum (digits d @ ?v1) False = Some (d, ?v1)"
    using getnum_digits [OF d100 not_digit_blank(1)] by simp
  have s2: "skip1 (CHR '' '') ?v1 = Some (shortMonthNames ! k @ ?v3)"
    using month_no_blank [OF assms(3)] by (simp add: skip1_def)
  have s3: "lookup shortMonthNames (shortMonthNames ! k @ ?v3) = Some (k, ?v3)"
    by (rule lookup_month [OF assms(3)])
  have yb: "digit_char (nat y div 10 mod 10) \<noteq> CHR '' ''"
    by (rule digit_char_props [THEN conjunct2, THEN conjunct2, THEN conjunct2, THEN conjunct1])
       arith
  have s4: "skip1 (CHR '' '') ?v3 = Some (?yy @ ?v5)"
    using yb by (simp add: skip1_def)
  have s5: "stdYear (?yy @ ?v5) = Some (y, ?v5)"
    by (rule stdYear_two [OF assms(6,7)])
  have hb: "hd (zero2 h) \<noteq> CHR '' ''"
    using h100 by (simp add: zero2_eq digit_char_props)
  have s6: "skip1 (CHR '' '') ?v5 = Some (zero2 h @ '':'' @ zero2 mi @ '' GMT'')"
    using hb h100 by (simp add: skip1_def zero2_eq)
  have s7: "getnum (zero2 h @ '':'' @ zero2 mi @ '' GMT'') False = Some (h, '':'' @ zero2 mi @ '' GMT'')"
    by (rule getnum_zero2 [OF h100(1)])
  have s8: "skip1 (CHR '':'') ('':'' @ zero2 mi @ '' GMT'') = Some (zero2 mi @ '' GMT'')"
    by (simp add: skip1_def)
  have s9: "getnum (zero2 mi @ '' GMT'') True = Some (mi, '' GMT'')"
    by (rule getnum_zero2 [OF h100(2)])
  have s10: "skip1 (CHR '' '') '' GMT'' = Some ''GMT''"
    by (simp add: skip1_def)
  have v: "digits d @ '' '' @ shortMonthNames ! k @ '' '' @ ?yy @ '' ''
           @ (zero2 h @ '':'' @ zero2 mi) @ '' GMT'' = digits d @ ?v1"
    by simp
  show ?thesis
    unfolding v time_Parse_def
    using start digits_not_Nil [of d] assms
    by (simp add: s1 s2 s3 s4 s5 s6 s7 s8 s9 s10 del: append.simps append_Cons append_Nil)
qed

subsection \<open>The mode string\<close>

lemma letters_of_file: "mode_letters (mode_of EntryTypeFile perm) = []"
  by (simp add: mode_letters_def mode_of_def upt_rec bit_take_bit_iff)

lemma letters_of_folder: "hd (mode_letters (mode_of EntryTypeFolder perm)) = CHR ''d'' \<and>
   mode_letters (mode_of EntryTypeFolder perm) \<noteq> []"
  by (simp add: mode_letters_def mode_of_def upt_rec bit_or_iff bit_exp_iff)

lemma letters_of_link: "hd (mode_letters (mode_of EntryTypeLink perm)) = CHR ''L'' \<and>
   mode_letters (mode_of EntryTypeLink perm) \<noteq> []"
  by (simp add: mode_letters_def mode_of_def upt_rec bit_or_iff bit_exp_iff bit_take_bit_iff)

lemma mode_letters_nospace: "list_all (\<lambda>c. \<not> isSpace c) (mode_letters m)"
proof -
  have "set (mode_letters m) \<subseteq> set ''dalTLDpSugct?''"
    unfolding mode_letters_def by (auto dest: set_zip_leftD)
  then show ?thesis
    by (auto simp: list_all_iff isSpace_def)
qed

lemma mode_rwx_nospace: "list_all (\<lambda>c. \<not> isSpace c) (mode_rwx m)"
  by (simp add: mode_rwx_def upt_rec isSpace_def)

lemma mode_rwx_not_Nil: "mode_rwx m \<noteq> []"
  by (simp add: mode_rwx_def upt_rec)

lemma token_FileMode_String: "token (FileMode_String m)"
  using mode_letters_nospace [of m] mode_rwx_nospace [of m] mode_rwx_not_Nil [of m]
  by (simp add: FileMode_String_def token_def isSpace_def)

lemma entry_type_of_mode:
  "ty \<noteq> EntryTypeLink \<Longrightarrow> entry_type (hd (FileMode_String (mode_of ty perm))) = Some ty"
  using letters_of_folder [of perm]
  by (cases ty) (simp_all add: FileMode_String_def letters_of_file entry_type_def)

lemma entry_type_of_link: "entry_type (hd (FileMode_String (mode_of EntryTypeLink perm))) = None"
  using letters_of_link [of perm]
  by (simp add: FileMode_String_def entry_type_def)

subsection \<open>The fields of a formatted line\<close>

lemma blank_is_space: "isSpace (CHR '' '')" "isSpace TAB" "isSpace CR" "isSpace LF"
  by (simp_all add: isSpace_def TAB_def CR_def LF_def)

lemma fields_from_blanks: "fields_from [] (replicate k (CHR '' '') @ r) = fields_from [] r"
  by (induction k) (simp_all add: isSpace_def)

lemma token_Itoa: "token (strconv_Itoa i)"
  using token_digits [of "nat i"] token_digits [of "nat (- i)"]
  by (simp add: strconv_Itoa_def token_def isSpace_def)

lemma colon_not_space: "\<not> isSpace (CHR '':'')"
  by (simp add: isSpace_def)

lemma token_clock: "h < 100 \<Longrightarrow> mi < 100 \<Longrightarrow> token (zero2 h @ '':'' @ zero2 mi)"
  by (simp add: zero2_eq token_def digit_char_props colon_not_space)

lemma Contains_clock:
  "h < 100 \<Longrightarrow> mi < 100 \<Longrightarrow> strings_Contains (zero2 h @ '':'' @ zero2 mi) '':''"
  by (simp add: zero2_eq strings_Contains_def digit_char_props)

lemma fields_of_name:
  "list_all token nf \<Longrightarrow> fields_from [] (strings_Join nf '' '' @ CRLF) = nf"
  using fields_from_Join [of nf CR "[LF]"]
  by (simp add: CRLF_def blank_is_space)

lemma Fields_detailed_line:
  assumes nf: "list_all token nf" and k: "k < 12" and d: "d < 100" and h: "h < 100"
    and mi: "mi < 100"
  shows "strings_Fields (detailed_line
           \<lparr>fi_Name = strings_Join nf '' '', fi_Size = sz, fi_Mode = m,
            fi_ModTime = \<lparr>year = y, month = Suc k, day = d, hour = h, minute = mi, second = s\<rparr>\<rparr>)
         = [FileMode_String m, ''1'', ''user'', ''group'', strconv_Itoa sz, shortMonthNames ! k,
            digits d, zero2 h @ '':'' @ zero2 mi] @ nf"
proof -
  let ?name = "strings_Join nf '' '' @ CRLF"
  let ?clock = "zero2 h @ '':'' @ zero2 mi"
  have 1: "fields_from [] (?clock @ CHR '' '' # ?name) = ?clock # nf"
    using fields_from_token [OF token_clock [OF h mi] blank_is_space(1)] fields_of_name [OF nf]
    by simp
  have 2: "fields_from [] (digits d @ CHR '' '' # ?clock @ CHR '' '' # ?name)
             = digits d # ?clock # nf"
    using fields_from_token [OF token_digits blank_is_space(1)] 1 by simp
  have 3: "fields_from [] ((if d < 10 then '' '' @ digits d else digits d)
             @ CHR '' '' # ?clock @ CHR '' '' # ?name) = digits d # ?clock # nf"
    using 2 by (simp add: isSpace_def)
  have 4: "fields_from [] (shortMonthNames ! k @ CHR '' '' #
             (if d < 10 then '' '' @ digits d else digits d)
             @ CHR '' '' # ?clock @ CHR '' '' # ?name)
           = shortMonthNames ! k # digits d # ?clock # nf"
    using fields_from_token [OF month_token [OF k] blank_is_space(1)] 3 by simp
  have 5: "fields_from [] (pad8 sz @ CHR '' '' # shortMonthNames ! k @ CHR '' '' #
             (if d < 10 then '' '' @ digits d else digits d)
             @ CHR '' '' # ?clock @ CHR '' '' # ?name)
           = strconv_Itoa sz # shortMonthNames ! k # digits d # ?clock # nf"
    using fields_from_token [OF token_Itoa blank_is_space(1)] 4
    by (simp add: pad8_def fields_from_blanks)
  let ?rest = "pad8 sz @ CHR '' '' # shortMonthNames ! k @ CHR '' '' #
             (if d < 10 then '' '' @ digits d else digits d)
             @ CHR '' '' # ?clock @ CHR '' '' # ?name"
  have t: "token ''1''" "token ''user''" "token ''group''"
    by (simp_all add: token_def isSpace_def)
  have 6: "fields_from [] (''1'' @ CHR '' '' # ''user'' @ TAB # ''group'' @ TAB # ?rest)
           = ''1'' # ''user'' # ''group'' # fields_from [] ?rest"
    by (simp only: fields_from_token [OF t(1) blank_is_space(1)]
        fields_from_token [OF t(2) blank_is_space(2)]
        fields_from_token [OF t(3) blank_is_space(2)])
  have shape: "detailed_line
           \<lparr>fi_Name = strings_Join nf '' '', fi_Size = sz, fi_Mode = m,
            fi_ModTime = \<lparr>year = y, month = Suc k, day = d, hour = h, minute = mi, second = s\<rparr>\<rparr>
         = FileMode_String m @ TAB # (''1'' @ CHR '' '' # ''user'' @ TAB # ''group'' @ TAB # ?rest)"
    using k by (simp add: detailed_line_def time_Format_def)
  have "fields_from [] (FileMode_String m @ TAB #
            (''1'' @ CHR '' '' # ''user'' @ TAB # ''group'' @ TAB # ?rest))
        = FileMode_String m # ''1'' # ''user'' # ''group'' # strconv_Itoa sz
            # shortMonthNames ! k # digits d # ?clock # nf"
    by (simp only: fields_from_token [OF token_FileMode_String blank_is_space(2)] 6 5)
  then show ?thesis
    unfolding strings_Fields_def shape by simp
qed

subsection \<open>Lines with a year in field 7\<close>

lemma first_byte_of_field:
  assumes "i < length (strings_Fields line)"
  shows "index (strings_Fields line ! i) 0 = Return (hd (strings_Fields line ! i))"
proof -
  have "token (strings_Fields line ! i)"
    using Fields_tokens [of line] assms by (simp add: list_all_length)
  then show ?thesis
    by (cases "strings_Fields line ! i") (simp_all add: token_def index_def)
qed

text \<open>
  A line with nine fields, a known type and, for a file, a numeric size, whose field 7
  has no colon: when the field has fewer than four bytes, \<open>parseListLine\<close> panics on the
  slice; when it has four or more, the bytes 2 and 3 are the year, the time is midnight,
  and a date that does not parse gives the error and no entry.
\<close>

lemma parseListLine_short_year:
  assumes "9 \<le> length (strings_Fields line)"
    and "entry_type (hd (strings_Fields line ! 0)) = Some ty"
    and "ty = EntryTypeFile \<Longrightarrow> snd (strconv_ParseUint (strings_Fields line ! 4)) = None"
    and "\<not> strings_Contains (strings_Fields line ! 7) '':''"
    and "length (strings_Fields line ! 7) < 4"
  shows "parseListLine thisYear line = Panic SliceBoundsOutOfRange"
proof -
  have "index (strings_Fields line ! 0) 0 = Return (hd (strings_Fields line ! 0))"
    using assms(1) by (intro first_byte_of_field) linarith
  then show ?thesis
    using assms
    by (cases "strconv_ParseUint (strings_Fields line ! 4)")
       (simp add: parseListLine_def Let_def timeStr_def slice_def)
qed

lemma parseListLine_year_field:
  assumes "9 \<le> length (strings_Fields line)"
    and "entry_type (hd (strings_Fields line ! 0)) = Some ty"
    and "ty = EntryTypeFile \<Longrightarrow> snd (strconv_ParseUint (strings_Fields line ! 4)) = None"
    and "\<not> strings_Contains (strings_Fields line ! 7) '':''"
    and "4 \<le> length (strings_Fields line ! 7)"
  shows "parseListLine thisYear line =
     Return (case time_Parse (strings_Fields line ! 6 @ '' '' @ strings_Fields line ! 5 @ '' ''
                 @ take 2 (drop 2 (strings_Fields line ! 7)) @ '' 00:00 GMT'') of
               Inl err \<Rightarrow> Inl err
             | Inr t \<Rightarrow> Inr \<lparr>Name = strings_Join (drop 8 (strings_Fields line)) '' '', Type = ty,
                               Size = (if ty = EntryTypeFile
                                       then fst (strconv_ParseUint (strings_Fields line ! 4)) else 0),
                               Time = t\<rparr>)"
proof -
  have "index (strings_Fields line ! 0) 0 = Return (hd (strings_Fields line ! 0))"
    using assms(1) by (intro first_byte_of_field) linarith
  then show ?thesis
    using assms
    by (cases "strconv_ParseUint (strings_Fields line ! 4)")
       (simp add: parseListLine_def Let_def timeStr_def slice_def split: sum.splits)
qed

text \<open>
  C3. The claim fails on the code: a line whose field 7 is the two-digit year \<open>99\<close>
  makes \<open>parseListLine\<close> panic on \<open>fields[7][2:4]\<close>, in every year.
\<close>

theorem C3_short_year_field_panics:
  "parseListLine thisYear ''-rw-r--r-- 1 user group 10 Apr 1 99 notes.txt'' =
     Panic SliceBoundsOutOfRange"
  by (simp add: eval_parse)

subsection \<open>Formatting an entry and parsing the line again\<close>

lemma uint_small: "unat (w :: 64 word) < 2 ^ 63 \<Longrightarrow> uint w < 2 ^ 63"
  unfolding uint_nat by (metis of_nat_less_iff of_nat_numeral of_nat_power)

lemma signed_small: "uint (w :: 64 word) < 2 ^ 63 \<Longrightarrow> signed_take_bit 63 (uint w) = uint w"
  by (rule signed_take_bit_int_eq_self) (use uint_ge_0 [of w] in linarith, assumption)

lemma sint_64: "sint (w :: 64 word) = signed_take_bit 63 (uint w)"
  unfolding sint_uint by simp

lemma sint_small: "unat (w :: 64 word) < 2 ^ 63 \<Longrightarrow> sint w = int (unat w)"
  using signed_small [OF uint_small, of w] by (simp only: sint_64 uint_nat)

lemma Itoa_nat: "strconv_Itoa (int n) = digits n"
  by (simp add: strconv_Itoa_def)

lemma ParseUint_size:
  "unat (w :: 64 word) < 2 ^ 63 \<Longrightarrow> strconv_ParseUint (strconv_Itoa (sint w)) = (w, None)"
proof -
  assume a: "unat w < 2 ^ 63"
  have "unat w < 2 ^ 64"
    using unsigned_less [of w, where ?'a = nat] by simp
  from ParseUint_digits [OF this]
  have "strconv_ParseUint (digits (unat w)) = (w, None)"
    by simp
  moreover have "strconv_Itoa (sint w) = digits (unat w)"
    by (simp only: sint_small [OF a] Itoa_nat)
  ultimately show ?thesis
    by simp
qed

lemma parse_accepted:
  assumes "parseListLine y line = Return (Inr e)"
  shows "9 \<le> length (strings_Fields line)"
    and "Name e = strings_Join (drop 8 (strings_Fields line)) '' ''"
    and "Type e \<noteq> EntryTypeFile \<Longrightarrow> Size e = 0"
    and "\<exists>ts. time_Parse ts = Inr (Time e)"
  using assms
  by (auto simp: parseListLine_def Let_def
      split: if_splits result.splits option.splits prod.splits sum.splits)

lemma reparse:
  assumes nf: "list_all token nf" "nf \<noteq> []"
    and ty: "ty \<noteq> EntryTypeLink"
    and sz: "ty = EntryTypeFile \<Longrightarrow> unat sz < 2 ^ 63" "ty \<noteq> EntryTypeFile \<Longrightarrow> sz = 0"
    and k: "k < 12" and d: "1 \<le> d" "d \<le> daysIn (Suc k) thisYear"
    and h: "h < 24" and mi: "mi < 60"
    and y: "1969 \<le> thisYear" "thisYear \<le> 2068"
  shows "parseListLine thisYear (ListDetailed [info_of perm
           \<lparr>Name = strings_Join nf '' '', Type = ty, Size = sz,
            Time = \<lparr>year = y0, month = Suc k, day = d, hour = h, minute = mi, second = 0\<rparr>\<rparr>])
         = Return (Inr
           \<lparr>Name = strings_Join nf '' '', Type = ty, Size = sz,
            Time = \<lparr>year = thisYear, month = Suc k, day = d, hour = h, minute = mi,
                    second = 0\<rparr>\<rparr>)"
proof -
  let ?M = "FileMode_String (mode_of ty perm)"
  let ?clock = "zero2 h @ '':'' @ zero2 mi"
  let ?fs = "[?M, ''1'', ''user'', ''group'', strconv_Itoa (sint sz), shortMonthNames ! k,
              digits d, ?clock] @ nf"
  have d100: "d < 100"
    using daysIn_le_31 [of "Suc k" thisYear] k d by simp
  have h100: "h < 100" "mi < 100"
    using h mi by simp_all
  have fs: "strings_Fields (ListDetailed [info_of perm
           \<lparr>Name = strings_Join nf '' '', Type = ty, Size = sz,
            Time = \<lparr>year = y0, month = Suc k, day = d, hour = h, minute = mi, second = 0\<rparr>\<rparr>])
        = ?fs"
    using Fields_detailed_line [OF nf(1) k d100 h100]
    by (simp add: ListDetailed_def info_of_def)
  have len: "\<not> length ?fs < 9"
    using nf(2) by (cases nf) simp_all
  have M: "index (?fs ! 0) 0 = Return (hd ?M)"
    using token_FileMode_String [of "mode_of ty perm"]
    by (cases ?M) (simp_all add: index_def token_def)
  have et: "entry_type (hd ?M) = Some ty"
    by (rule entry_type_of_mode [OF ty])
  have size: "(if ty = EntryTypeFile then strconv_ParseUint (?fs ! 4) else (0, None)) = (sz, None)"
  proof (cases "ty = EntryTypeFile")
    case True
    from ParseUint_size [OF sz(1) [OF True]] True show ?thesis
      by simp
  next
    case False
    with sz(2) show ?thesis
      by simp
  qed
  have ts: "timeStr thisYear ?fs
              = Return (digits d @ '' '' @ shortMonthNames ! k @ '' ''
                  @ [digit_char (nat thisYear div 10 mod 10), digit_char (nat thisYear mod 10)]
                  @ '' '' @ ?clock @ '' GMT'')"
    using Contains_clock [OF h100] year_slice [OF y]
    by (simp add: timeStr_def)
  have tp: "time_Parse (digits d @ '' '' @ shortMonthNames ! k @ '' ''
               @ [digit_char (nat thisYear div 10 mod 10), digit_char (nat thisYear mod 10)]
               @ '' '' @ ?clock @ '' GMT'')
            = Inr \<lparr>year = thisYear, month = Suc k, day = d, hour = h, minute = mi, second = 0\<rparr>"
    by (rule time_Parse_formatted [OF d k h mi y])
  have name: "drop 8 ?fs = nf"
    by simp
  show ?thesis
    unfolding parseListLine_def fs Let_def
    by (simp only: len if_False M result.case et option.case size prod.case ts tp sum.case name)
qed

lemma parse_notes_2019:
  "parseListLine 2026 ''-rw-r--r-- 1 user group 10 Apr 1 2019 notes.txt'' = Return (Inr notes_2019)"
  by (simp add: eval_parse eval_time notes_2019_def)

lemma format_notes_2019:
  "ListDetailed [info_of 0x1A4 notes_2019] =
     ''-rw-r--r--'' @ [TAB] @ ''1 user'' @ [TAB] @ ''group'' @ [TAB]
       @ ''      10 Apr  1 00:00 notes.txt'' @ CRLF"
  by (simp add: eval_format notes_2019_def replicate_numeral_unfold)

lemma reparse_notes_2019:
  "parseListLine 2026 (ListDetailed [info_of 0x1A4 notes_2019]) = Return (Inr notes_2026)"
  unfolding format_notes_2019
  by (simp add: eval_parse eval_time notes_2026_def strconv_Itoa_def digits.simps digit_char_def
      TAB_def CRLF_def CR_def LF_def)


text \<open>
  The claim of the round trip fails for the time: \<open>ListDetailed\<close> writes no year, and
  \<open>parseListLine\<close> gives a line without a year the current one. A file listed with the
  year 2019 comes back, in 2026, with the year 2026.
\<close>

theorem C7_counterexample:
  "parseListLine 2026 ''-rw-r--r-- 1 user group 10 Apr 1 2019 notes.txt'' = Return (Inr notes_2019) \<and>
   parseListLine 2026 (ListDetailed [info_of 0x1A4 notes_2019]) = Return (Inr notes_2026) \<and>
   Time notes_2026 \<noteq> Time notes_2019"
  by (intro conjI parse_notes_2019 reparse_notes_2019) (simp add: notes_2019_def notes_2026_def)

text \<open>
  C7, as amended. Take a line of ASCII bytes that \<open>parseListLine\<close> accepts in a year from
  1969 to 2068, with an entry that is a file (of a size below \<open>2^63\<close>) or a folder and a
  day of the month that the current year has too. Formatting any \<open>FileInfo\<close> that shows the
  entry and parsing the line again, in the same year, returns the entry with the current
  year in its time: the type, the size, the name, and the month, day, hour and minute are
  the same.
\<close>

theorem C7_roundtrip_in_current_year:
  assumes line: "ascii line"
    and parse: "parseListLine thisYear line = Return (Inr e)"
    and ty: "Type e \<noteq> EntryTypeLink"
    and sz: "Type e = EntryTypeFile \<longrightarrow> unat (Size e) < 2 ^ 63"
    and d: "day (Time e) \<le> daysIn (month (Time e)) thisYear"
    and y: "1969 \<le> thisYear" "thisYear \<le> 2068"
  shows "parseListLine thisYear (ListDetailed [info_of perm e])
         = Return (Inr (e\<lparr>Time := (Time e)\<lparr>year := thisYear\<rparr>\<rparr>))"
proof -
  let ?nf = "drop 8 (strings_Fields line)"
  note acc = parse_accepted [OF parse]
  obtain ts where ts: "time_Parse ts = Inr (Time e)"
    using acc(4) by blast
  note v = time_Parse_valid [OF ts]
  obtain k where k: "month (Time e) = Suc k" "k < 12"
    using v by (cases "month (Time e)") simp_all
  have nf: "list_all token ?nf" "?nf \<noteq> []"
    using Fields_tokens [of line] acc(1) by (simp_all add: list_all_iff in_set_dropD)
  have e: "e = \<lparr>Name = strings_Join ?nf '' '', Type = Type e, Size = Size e,
               Time = \<lparr>year = year (Time e), month = Suc k, day = day (Time e),
                       hour = hour (Time e), minute = minute (Time e), second = 0\<rparr>\<rparr>"
    using acc(2) k(1) v by simp
  have e': "e\<lparr>Time := (Time e)\<lparr>year := thisYear\<rparr>\<rparr>
            = \<lparr>Name = strings_Join ?nf '' '', Type = Type e, Size = Size e,
               Time = \<lparr>year = thisYear, month = Suc k, day = day (Time e),
                       hour = hour (Time e), minute = minute (Time e), second = 0\<rparr>\<rparr>"
    using acc(2) k(1) v by simp
  have "parseListLine thisYear (ListDetailed [info_of perm
           \<lparr>Name = strings_Join ?nf '' '', Type = Type e, Size = Size e,
               Time = \<lparr>year = year (Time e), month = Suc k, day = day (Time e),
                       hour = hour (Time e), minute = minute (Time e), second = 0\<rparr>\<rparr>])
        = Return (Inr \<lparr>Name = strings_Join ?nf '' '', Type = Type e, Size = Size e,
               Time = \<lparr>year = thisYear, month = Suc k, day = day (Time e),
                       hour = hour (Time e), minute = minute (Time e), second = 0\<rparr>\<rparr>)"
  proof (rule reparse [OF nf ty _ _ k(2) _ _ _ _ y])
    show "Type e = EntryTypeFile \<Longrightarrow> unat (Size e) < 2 ^ 63"
      using sz by simp
    show "Type e \<noteq> EntryTypeFile \<Longrightarrow> Size e = 0"
      by (rule acc(3))
    show "1 \<le> day (Time e)" "hour (Time e) < 24" "minute (Time e) < 60"
      using v by simp_all
    show "day (Time e) \<le> daysIn (Suc k) thisYear"
      using d k(1) by simp
  qed
  then show ?thesis
    using e e' by simp
qed

lemma parse_my_docs:
  "parseListLine 2026 ''drwxr-xr-x 2 user group 4096 Feb 9 07:05 my docs'' = Return (Inr my_docs)"
  by (simp add: eval_parse eval_time my_docs_def strconv_Itoa_def digits.simps digit_char_def)

theorem C7_witness:
  "ascii ''drwxr-xr-x 2 user group 4096 Feb 9 07:05 my docs'' \<and>
   parseListLine 2026 ''drwxr-xr-x 2 user group 4096 Feb 9 07:05 my docs'' = Return (Inr my_docs) \<and>
   Type my_docs \<noteq> EntryTypeLink \<and> Type my_docs \<noteq> EntryTypeFile \<and>
   day (Time my_docs) \<le> daysIn (month (Time my_docs)) 2026 \<and>
   parseListLine 2026 (ListDetailed [info_of 0x1ED my_docs]) = Return (Inr my_docs)"
proof -
  have a: "ascii ''drwxr-xr-x 2 user group 4096 Feb 9 07:05 my docs''"
    by (simp add: ascii_def)
  have t: "Type my_docs \<noteq> EntryTypeLink" "Type my_docs \<noteq> EntryTypeFile"
    by (simp_all add: my_docs_def)
  have d: "day (Time my_docs) \<le> daysIn (month (Time my_docs)) 2026"
    by (simp add: my_docs_def daysIn_def)
  have u: "my_docs\<lparr>Time := (Time my_docs)\<lparr>year := 2026\<rparr>\<rparr> = my_docs"
    by (simp add: my_docs_def)
  show ?thesis
    using C7_roundtrip_in_current_year [OF a parse_my_docs t(1) _ d, of "0x1ED"] a t d parse_my_docs
    by (simp add: u)
qed

text \<open>
  Why the links, the sizes from \<open>2^63\<close> on and the days that the current year does not
  have are left out: for each, a line that is accepted and whose formatted entry is not.
\<close>

lemma link_does_not_round_trip:
  "parseListLine 2026 ''lrwxrwxrwx 1 user group 7 Apr 1 12:00 latest'' = Return (Inr latest_link) \<and>
   parseListLine 2026 (ListDetailed [info_of 0x1FF latest_link])
     = Return (Inl (Error ''unknown entry type''))"
  by (simp add: eval_parse eval_time eval_format latest_link_def replicate_numeral_unfold)

lemma big_file_does_not_round_trip:
  "parseListLine 2026 ''-rw-r--r-- 1 user group 9223372036854775808 Apr 1 12:00 big''
     = Return (Inr big_file) \<and>
   parseListLine 2026 (ListDetailed [info_of 0x1A4 big_file])
     = Return (Inl (Error ''invalid syntax''))"
  by (simp add: eval_parse eval_time eval_format big_file_def)

lemma leap_day_does_not_round_trip:
  "parseListLine 2026 ''drwxr-xr-x 2 user group 4096 Feb 29 2024 backup'' = Return (Inr leap_day_dir) \<and>
   parseListLine 2026 (ListDetailed [info_of 0x1ED leap_day_dir])
     = Return (Inl (Error ''parsing time''))"
  by (simp add: eval_parse eval_time eval_format leap_day_dir_def replicate_numeral_unfold)

text \<open>
  C9. For the empty list of items both formatters return the same two lines, one for
  \<open>.\<close> and one for \<open>..\<close>: each is a directory line of size 0 with the placeholder
  time stamp \<open>Apr 1 00:00\<close>, and the body has exactly these two lines.
\<close>

theorem C9_empty_listing:
  "ListDetailed [] = null \<and> ListShort [] = null \<and>
   map strings_Fields (body_lines null) =
     [[''drwxrwxrwx'', ''1'', ''user'', ''group'', ''0'', ''Apr'', ''1'', ''00:00'', ''.''],
      [''drwxrwxrwx'', ''1'', ''user'', ''group'', ''0'', ''Apr'', ''1'', ''00:00'', ''..'']]"
  by (simp add: ListDetailed_def ListShort_def null_def body_lines_def strings_Split_def
      strings_Fields_def CRLF_def CR_def LF_def isSpace_def)


end
